theory Spec2Isabelle
  imports Main "HOL-Library.Sublist" "HOL-Library.Word"
begin

section \<open>The Amazon provider of the superkey worker\<close>

text \<open>
  A shallow embedding of \<^verbatim>\<open>provider/amazon_provider.go\<close>: the step interpreter
  \<^verbatim>\<open>ForgeApplication\<close>, the payload templater \<^verbatim>\<open>substiteInPayload\<close>, the naming
  helpers and the compensator \<^verbatim>\<open>TearDown\<close>.

  Go strings are byte sequences, so they are \<^typ>\<open>string\<close> (a list of 8-bit characters).
  A Go \<^verbatim>\<open>map[string]string\<close> is a partial function; reading a missing key of a Go map
  gives the zero value, which the reading functions below write out.
  Logging calls have no effect on any value and are left out.
\<close>

subsection \<open>Data model\<close>

text \<open>
  \<^verbatim>\<open>superkey.Step\<close>. The field \<^verbatim>\<open>Substitutions\<close> is a Go map that the templater walks with
  \<^verbatim>\<open>range\<close>, in an order the runtime chooses. It is kept as the list of its entries in the
  order the walk visits them (the keys of a map are distinct).
\<close>

record Step =
  Name :: string
  Payload :: string
  Substitutions :: "(string \<times> string) list"

record CreateRequest =
  ApplicationType :: string
  SuperKeySteps :: "Step list"
  Extra :: "string \<rightharpoonup> string"

text \<open>
  \<^verbatim>\<open>superkey.ForgedApplication\<close>, the step ledger. \<^verbatim>\<open>StepsCompleted\<close> is a
  \<^verbatim>\<open>map[string]map[string]string\<close>. Every read in this file either indexes an entry a
  second time or compares it with \<^verbatim>\<open>nil\<close>, and for both a key that holds a nil inner map
  behaves as a key that is missing: \<open>None\<close> stands for either.
  The field \<^verbatim>\<open>Client\<close> points back to the provider and is never read here; the provider's
  client is passed to the operations instead.
  The three result fields are those the specification lists for the final identity.
\<close>

record ForgedApplication =
  StepsCompleted :: "string \<rightharpoonup> (string \<rightharpoonup> string)"
  Request :: CreateRequest
  GUID :: string
  resultUsername :: "string option"
  resultPassword :: "string option"
  resultExtra :: "string option"

datatype error = RemoteError string

subsection \<open>The remote resource client\<close>

text \<open>
  Modelled from the spec: \<^verbatim>\<open>amazon.Client\<close> is an external collaborator, declared outside
  this file; section 6 of the specification lists its eight operations and their results.
  It is a parameter of the model: a record of the operations, each a function of the
  arguments and of the state \<open>'w\<close> of the remote side, returning the result and the next
  state. An operation of Go type \<^verbatim>\<open>error\<close> returns \<open>None\<close> for \<^verbatim>\<open>nil\<close>. For \<^verbatim>\<open>createPolicy\<close>
  and \<^verbatim>\<open>createRole\<close>, of result \<^verbatim>\<open>(arn, error)\<close>, the Go pointer result is taken to carry
  the identifier whenever the error is nil, so the result is a sum with \<open>Inl\<close> for the
  error.
\<close>

record 'w Client =
  CreateS3Bucket :: "string \<Rightarrow> 'w \<Rightarrow> error option \<times> 'w"
  CreatePolicy :: "string \<Rightarrow> string \<Rightarrow> 'w \<Rightarrow> (error + string) \<times> 'w"
  CreateRole :: "string \<Rightarrow> string \<Rightarrow> 'w \<Rightarrow> (error + string) \<times> 'w"
  BindPolicyToRole :: "string \<Rightarrow> string \<Rightarrow> 'w \<Rightarrow> error option \<times> 'w"
  UnBindPolicyToRole :: "string \<Rightarrow> string \<Rightarrow> 'w \<Rightarrow> error option \<times> 'w"
  DestroyPolicy :: "string \<Rightarrow> 'w \<Rightarrow> error option \<times> 'w"
  DestroyRole :: "string \<Rightarrow> 'w \<Rightarrow> error option \<times> 'w"
  DestroyS3Bucket :: "string \<Rightarrow> 'w \<Rightarrow> error option \<times> 'w"

text \<open>
  The remote side as the provider sees it: the calls issued so far, each with the error
  it returned, and the state of the remote side.
\<close>

datatype call =
    CallCreateS3Bucket string
  | CallCreatePolicy string string
  | CallCreateRole string string
  | CallBindPolicyToRole string string
  | CallUnBindPolicyToRole string string
  | CallDestroyPolicy string
  | CallDestroyRole string
  | CallDestroyS3Bucket string

type_synonym 'w remote = "(call \<times> error option) list \<times> 'w"

definition errorOf :: "error + string \<Rightarrow> error option" where
  "errorOf res = (case res of Inl e \<Rightarrow> Some e | Inr _ \<Rightarrow> None)"

text \<open>Issuing one call: run the operation on the remote state and record the call.\<close>

definition invoke :: "call \<Rightarrow> ('w \<Rightarrow> error option \<times> 'w) \<Rightarrow> 'w remote \<Rightarrow> error option \<times> 'w remote" where
  "invoke c op r = (case op (snd r) of (err, w') \<Rightarrow> (err, (fst r @ [(c, err)], w')))"

definition invokeArn :: "call \<Rightarrow> ('w \<Rightarrow> (error + string) \<times> 'w) \<Rightarrow> 'w remote \<Rightarrow> (error + string) \<times> 'w remote" where
  "invokeArn c op r = (case op (snd r) of (res, w') \<Rightarrow> (res, (fst r @ [(c, errorOf res)], w')))"

subsection \<open>Reading the ledger\<close>

text \<open>
  \<^verbatim>\<open>f.StepsCompleted[step][key]\<close>: a missing step gives the nil inner map, and a missing
  key of the inner map (nil or not) gives the empty string.
\<close>

definition readOutput :: "(string \<rightharpoonup> (string \<rightharpoonup> string)) \<Rightarrow> string \<Rightarrow> string \<Rightarrow> string" where
  "readOutput sc step key =
     (case sc step of
        None \<Rightarrow> []
      | Some outputs \<Rightarrow> (case outputs key of None \<Rightarrow> [] | Some v \<Rightarrow> v))"

text \<open>\<^verbatim>\<open>errors = append(errors, err)\<close> under \<^verbatim>\<open>if err != nil\<close>.\<close>

definition appendErr :: "error list \<Rightarrow> error option \<Rightarrow> error list" where
  "appendErr errors err = (case err of None \<Rightarrow> errors | Some e \<Rightarrow> errors @ [e])"

subsection \<open>Standard library functions the provider calls\<close>

text \<open>
  \<^verbatim>\<open>path.Base\<close>: the empty path gives \<^verbatim>\<open>"."\<close>; trailing slashes are removed, then
  everything up to the last slash; a path of slashes only gives \<^verbatim>\<open>"/"\<close>.
\<close>

definition path_Base :: "string \<Rightarrow> string" where
  "path_Base p =
     (if p = [] then ''.''
      else
        (let stripped = rev (dropWhile (\<lambda>c. c = CHR ''/'') (rev p));
             element = rev (takeWhile (\<lambda>c. c \<noteq> CHR ''/'') (rev stripped))
         in if element = [] then ''/'' else element))"

text \<open>\<^verbatim>\<open>hex.EncodeToString\<close>: two lower-case digits for every byte.\<close>

definition hexDigit :: "nat \<Rightarrow> char" where
  "hexDigit n = ''0123456789abcdef'' ! (n mod 16)"

definition hexEncodeToString :: "8 word list \<Rightarrow> string" where
  "hexEncodeToString bs = concat (map (\<lambda>b. [hexDigit (unat b div 16), hexDigit (unat b mod 16)]) bs)"

text \<open>
  \<^verbatim>\<open>utf8.DecodeRuneInString\<close>, its width result: the number of bytes of the first UTF-8
  sequence, and 1 for a byte that starts no well-formed sequence.
\<close>

definition inRange :: "nat \<Rightarrow> nat \<Rightarrow> char \<Rightarrow> bool" where
  "inRange lo hi c = (lo \<le> of_char c \<and> (of_char c :: nat) \<le> hi)"

definition runeWidth :: "string \<Rightarrow> nat" where
  "runeWidth s =
     (case s of
        [] \<Rightarrow> 0
      | s0 # _ \<Rightarrow>
          (let b = (of_char s0 :: nat) in
           if b < 194 \<or> 244 < b then 1
           else
             (let sz = (if b < 224 then 2 else if b < 240 then 3 else (4::nat));
                  lo = (if b = 224 then 160 else if b = 240 then 144 else 128);
                  hi = (if b = 237 then 159 else if b = 244 then 143 else 191)
              in if length s < sz then 1
                 else if \<not> inRange lo hi (s ! 1) then 1
                 else if sz \<le> 2 then 2
                 else if \<not> inRange 128 191 (s ! 2) then 1
                 else if sz \<le> 3 then 3
                 else if \<not> inRange 128 191 (s ! 3) then 1
                 else 4)))"

text \<open>
  \<^verbatim>\<open>strings.Replace(s, old, new, -1)\<close>. For a non-empty \<^verbatim>\<open>old\<close> the string is scanned from
  the left, and each occurrence found is replaced and skipped. An empty \<^verbatim>\<open>old\<close> matches
  at the beginning of the string and after each UTF-8 sequence.
\<close>

fun replaceEach :: "string \<Rightarrow> string \<Rightarrow> string \<Rightarrow> string" where
  "replaceEach old new [] = []"
| "replaceEach old new (c # cs) =
     (if old \<noteq> [] \<and> prefix old (c # cs)
      then new @ replaceEach old new (drop (length old) (c # cs))
      else c # replaceEach old new cs)"

function insertAfterRunes :: "string \<Rightarrow> string \<Rightarrow> string" where
  "insertAfterRunes new s =
     (if s = [] then []
      else take (runeWidth s) s @ new @ insertAfterRunes new (drop (runeWidth s) s))"
  by pat_completeness auto
termination
proof (relation "measure (\<lambda>(new, s). length s)")
  show "wf (measure (\<lambda>(new, s). length s))" by simp
next
  fix new s :: string
  assume "s \<noteq> []"
  then have "0 < runeWidth s" "0 < length s"
    by (cases s; simp add: runeWidth_def Let_def)+
  then show "((new, drop (runeWidth s) s), (new, s)) \<in> measure (\<lambda>(new, s). length s)"
    by simp
qed

definition stringsReplaceAll :: "string \<Rightarrow> string \<Rightarrow> string \<Rightarrow> string" where
  "stringsReplaceAll s old new =
     (if old = new then s
      else if old = [] then new @ insertAfterRunes new s
      else replaceEach old new s)"

subsection \<open>Naming\<close>

text \<open>
  \<^verbatim>\<open>generateGUID\<close> reads the random source into a fresh buffer of eight bytes and encodes
  it. The bytes the source delivered are the parameter; what it did not fill stays zero.
\<close>

definition generateGUID :: "8 word list \<Rightarrow> string" where
  "generateGUID rnd = hexEncodeToString (take 8 rnd @ replicate (8 - length rnd) 0)"

definition getShortName :: "string \<Rightarrow> string" where
  "getShortName name = ''redhat-'' @ path_Base name"

subsection \<open>The payload templater\<close>

text \<open>\<^verbatim>\<open>f.Request.Extra[key]\<close>: the empty string for a missing key.\<close>

definition readExtra :: "(string \<rightharpoonup> string) \<Rightarrow> string \<Rightarrow> string" where
  "readExtra extra key = (case extra key of None \<Rightarrow> [] | Some v \<Rightarrow> v)"

fun substiteInPayload :: "string \<Rightarrow> ForgedApplication \<Rightarrow> (string \<times> string) list \<Rightarrow> string" where
  "substiteInPayload payload f [] = payload"
| "substiteInPayload payload f ((name, sub) # rest) =
     (if sub = ''get_account'' then
        (let accountNumber = readExtra (Extra (Request f)) ''account''
         in substiteInPayload (stringsReplaceAll payload name accountNumber) f rest)
      else if sub = ''s3'' then
        (let s3name = readOutput (StepsCompleted f) ''s3'' ''output''
         in substiteInPayload (stringsReplaceAll payload name s3name) f rest)
      else substiteInPayload payload f rest)"

subsection \<open>Ledger updates\<close>

text \<open>
  Modelled from the spec: \<^verbatim>\<open>MarkCompleted\<close> is a method of \<^verbatim>\<open>superkey.ForgedApplication\<close>,
  declared outside this file. Section 4.3 of the specification: on success the returned
  identifiers are recorded into \<^verbatim>\<open>stepsCompleted[step.name]\<close>.
\<close>

definition MarkCompleted :: "string \<Rightarrow> (string \<rightharpoonup> string) \<Rightarrow> ForgedApplication \<Rightarrow> ForgedApplication" where
  "MarkCompleted name data f = f\<lparr>StepsCompleted := (StepsCompleted f)(name \<mapsto> data)\<rparr>"

text \<open>
  Modelled from the spec: \<^verbatim>\<open>CreatePayload\<close> is a method of \<^verbatim>\<open>superkey.ForgedApplication\<close>,
  declared outside this file. Section 4.3 of the specification: the provider sets the
  ledger's final identity fields from the username and leaves password and extra unset.
  The arguments are Go pointers, \<open>None\<close> for \<^verbatim>\<open>nil\<close>. The third argument, the base name
  of the application type, has no field among those the specification lists.
\<close>

definition CreatePayload :: "string option \<Rightarrow> string option \<Rightarrow> string option \<Rightarrow> ForgedApplication \<Rightarrow> ForgedApplication" where
  "CreatePayload username password appType f = f\<lparr>resultUsername := username, resultPassword := password\<rparr>"

subsection \<open>ForgeApplication\<close>

text \<open>The ledger \<^verbatim>\<open>ForgeApplication\<close> starts from.\<close>

definition freshLedger :: "CreateRequest \<Rightarrow> 8 word list \<Rightarrow> ForgedApplication" where
  "freshLedger request rnd =
     \<lparr>StepsCompleted = Map.empty, Request = request, GUID = generateGUID rnd,
      resultUsername = None, resultPassword = None, resultExtra = None\<rparr>"

text \<open>
  The body of the loop over the steps: the \<^verbatim>\<open>switch\<close> on the step's name. The error
  component is \<open>Some\<close> where the source returns from inside the loop.
\<close>

definition forgeStep :: "'w Client \<Rightarrow> Step \<Rightarrow> ForgedApplication \<Rightarrow> 'w remote \<Rightarrow> ForgedApplication \<times> error option \<times> 'w remote" where
  "forgeStep a step f r =
     (if Name step = ''s3'' then
        (let name = getShortName (ApplicationType (Request f)) @ ''-bucket-'' @ GUID f;
             (err, r') = invoke (CallCreateS3Bucket name) (CreateS3Bucket a name) r
         in case err of
              Some e \<Rightarrow> (f, Some e, r')
            | None \<Rightarrow> (MarkCompleted ''s3'' [''output'' \<mapsto> name] f, None, r'))
      else if Name step = ''policy'' then
        (let name = getShortName (ApplicationType (Request f)) @ ''-policy-'' @ GUID f;
             payload = substiteInPayload (Payload step) f (Substitutions step);
             (res, r') = invokeArn (CallCreatePolicy name payload) (CreatePolicy a name payload) r
         in case res of
              Inl e \<Rightarrow> (f, Some e, r')
            | Inr arn \<Rightarrow> (MarkCompleted ''policy'' [''output'' \<mapsto> arn] f, None, r'))
      else if Name step = ''role'' then
        (let name = getShortName (ApplicationType (Request f)) @ ''-role-'' @ GUID f;
             payload = substiteInPayload (Payload step) f (Substitutions step);
             (res, r') = invokeArn (CallCreateRole name payload) (CreateRole a name payload) r
         in case res of
              Inl e \<Rightarrow> (f, Some e, r')
            | Inr roleArn \<Rightarrow> (MarkCompleted ''role'' [''output'' \<mapsto> name, ''arn'' \<mapsto> roleArn] f, None, r'))
      else if Name step = ''bind_role'' then
        (let roleName = readOutput (StepsCompleted f) ''role'' ''output'';
             policyArn = readOutput (StepsCompleted f) ''policy'' ''output'';
             (err, r') = invoke (CallBindPolicyToRole policyArn roleName) (BindPolicyToRole a policyArn roleName) r
         in case err of
              Some e \<Rightarrow> (f, Some e, r')
            | None \<Rightarrow> (MarkCompleted ''bind_role'' Map.empty f, None, r'))
      else (f, None, r))"

fun forgeSteps :: "'w Client \<Rightarrow> Step list \<Rightarrow> ForgedApplication \<Rightarrow> 'w remote \<Rightarrow> ForgedApplication \<times> error option \<times> 'w remote" where
  "forgeSteps a [] f r = (f, None, r)"
| "forgeSteps a (step # rest) f r =
     (case forgeStep a step f r of
        (f', Some e, r') \<Rightarrow> (f', Some e, r')
      | (f', None, r') \<Rightarrow> forgeSteps a rest f' r')"

definition ForgeApplication :: "'w Client \<Rightarrow> CreateRequest \<Rightarrow> 8 word list \<Rightarrow> 'w remote \<Rightarrow> ForgedApplication \<times> error option \<times> 'w remote" where
  "ForgeApplication a request rnd r =
     (case forgeSteps a (SuperKeySteps request) (freshLedger request rnd) r of
        (f, Some e, r') \<Rightarrow> (f, Some e, r')
      | (f, None, r') \<Rightarrow>
          (let username = readOutput (StepsCompleted f) ''role'' ''arn'';
               appType = path_Base (ApplicationType (Request f))
           in (CreatePayload (Some username) None (Some appType) f, None, r')))"

subsection \<open>TearDown\<close>

text \<open>
  Four blocks in sequence, each guarded by the presence of its entry. The ledger is
  reached through a pointer in the source, so the model returns it next to the errors.
\<close>

definition TearDown :: "'w Client \<Rightarrow> ForgedApplication \<Rightarrow> 'w remote \<Rightarrow> error list \<times> ForgedApplication \<times> 'w remote" where
  "TearDown a f r0 =
     (let errors0 = [];
          (errors1, r1) =
            (if StepsCompleted f ''bind_role'' \<noteq> None then
               (let policyArn = readOutput (StepsCompleted f) ''policy'' ''output'';
                    role = readOutput (StepsCompleted f) ''role'' ''output'';
                    (err, r') = invoke (CallUnBindPolicyToRole policyArn role) (UnBindPolicyToRole a policyArn role) r0
                in (appendErr errors0 err, r'))
             else (errors0, r0));
          (errors2, r2) =
            (if StepsCompleted f ''policy'' \<noteq> None then
               (let policyArn = readOutput (StepsCompleted f) ''policy'' ''output'';
                    (err, r') = invoke (CallDestroyPolicy policyArn) (DestroyPolicy a policyArn) r1
                in (appendErr errors1 err, r'))
             else (errors1, r1));
          (errors3, r3) =
            (if StepsCompleted f ''role'' \<noteq> None then
               (let roleName = readOutput (StepsCompleted f) ''role'' ''output'';
                    (err, r') = invoke (CallDestroyRole roleName) (DestroyRole a roleName) r2
                in (appendErr errors2 err, r'))
             else (errors2, r2));
          (errors4, r4) =
            (if StepsCompleted f ''s3'' \<noteq> None then
               (let bucket = readOutput (StepsCompleted f) ''s3'' ''output'';
                    (err, r') = invoke (CallDestroyS3Bucket bucket) (DestroyS3Bucket a bucket) r3
                in (appendErr errors3 err, r'))
             else (errors3, r3))
      in (errors4, f, r4))"

subsection \<open>Notions used to state the properties\<close>

text \<open>The calls recorded between two states of the remote side, and the errors among them.\<close>

definition issued :: "'w remote \<Rightarrow> 'w remote \<Rightarrow> (call \<times> error option) list" where
  "issued r r' = drop (length (fst r)) (fst r')"

fun failures :: "(call \<times> error option) list \<Rightarrow> error list" where
  "failures [] = []"
| "failures ((c, None) # tr) = failures tr"
| "failures ((c, Some e) # tr) = e # failures tr"

text \<open>The step names the \<^verbatim>\<open>switch\<close> of \<^verbatim>\<open>ForgeApplication\<close> has a case for.\<close>

definition recognized :: "string \<Rightarrow> bool" where
  "recognized n = (n = ''s3'' \<or> n = ''policy'' \<or> n = ''role'' \<or> n = ''bind_role'')"

text \<open>
  The cleanup calls a ledger asks for, as the specification words them: unbind, then
  the policy, then the role, then the bucket, each only when its entry is present.
\<close>

definition teardownCalls :: "ForgedApplication \<Rightarrow> call list" where
  "teardownCalls f =
     (if StepsCompleted f ''bind_role'' \<noteq> None
      then [CallUnBindPolicyToRole (readOutput (StepsCompleted f) ''policy'' ''output'')
              (readOutput (StepsCompleted f) ''role'' ''output'')] else []) @
     (if StepsCompleted f ''policy'' \<noteq> None
      then [CallDestroyPolicy (readOutput (StepsCompleted f) ''policy'' ''output'')] else []) @
     (if StepsCompleted f ''role'' \<noteq> None
      then [CallDestroyRole (readOutput (StepsCompleted f) ''role'' ''output'')] else []) @
     (if StepsCompleted f ''s3'' \<noteq> None
      then [CallDestroyS3Bucket (readOutput (StepsCompleted f) ''s3'' ''output'')] else [])"

text \<open>
  Running the client's own operation for a call, and for a list of calls one after the
  other from a state of the remote side: the errors the operations return and the state
  the last one leaves.
\<close>

fun perform :: "'w Client \<Rightarrow> call \<Rightarrow> 'w \<Rightarrow> error option \<times> 'w" where
  "perform a (CallCreateS3Bucket name) w = CreateS3Bucket a name w"
| "perform a (CallCreatePolicy name payload) w =
     (case CreatePolicy a name payload w of (res, w') \<Rightarrow> (errorOf res, w'))"
| "perform a (CallCreateRole name payload) w =
     (case CreateRole a name payload w of (res, w') \<Rightarrow> (errorOf res, w'))"
| "perform a (CallBindPolicyToRole policyArn roleName) w = BindPolicyToRole a policyArn roleName w"
| "perform a (CallUnBindPolicyToRole policyArn roleName) w = UnBindPolicyToRole a policyArn roleName w"
| "perform a (CallDestroyPolicy policyArn) w = DestroyPolicy a policyArn w"
| "perform a (CallDestroyRole roleName) w = DestroyRole a roleName w"
| "perform a (CallDestroyS3Bucket bucket) w = DestroyS3Bucket a bucket w"

fun performAll :: "'w Client \<Rightarrow> call list \<Rightarrow> 'w \<Rightarrow> (call \<times> error option) list \<times> 'w" where
  "performAll a [] w = ([], w)"
| "performAll a (c # cs) w =
     (case perform a c w of
        (err, w') \<Rightarrow> (case performAll a cs w' of (tr, w'') \<Rightarrow> ((c, err) # tr, w'')))"

text \<open>The step kind a cleanup call belongs to.\<close>

fun cleanupKind :: "call \<Rightarrow> string option" where
  "cleanupKind (CallUnBindPolicyToRole _ _) = Some ''bind_role''"
| "cleanupKind (CallDestroyPolicy _) = Some ''policy''"
| "cleanupKind (CallDestroyRole _) = Some ''role''"
| "cleanupKind (CallDestroyS3Bucket _) = Some ''s3''"
| "cleanupKind _ = None"

text \<open>One guarded block of \<^verbatim>\<open>TearDown\<close>, for the proofs.\<close>

definition cleanup :: "bool \<Rightarrow> call \<Rightarrow> ('w \<Rightarrow> error option \<times> 'w) \<Rightarrow> error list \<times> 'w remote \<Rightarrow> error list \<times> 'w remote" where
  "cleanup present c op s =
     (if present then (case invoke c op (snd s) of (err, r') \<Rightarrow> (appendErr (fst s) err, r')) else s)"

text \<open>
  Cutting a string at the occurrences of a non-empty token, found from the left, and
  gluing pieces with a separator: the words in which replacement of every occurrence
  is stated.
\<close>

fun cutAt :: "string \<Rightarrow> string \<Rightarrow> string list" where
  "cutAt old [] = [[]]"
| "cutAt old (c # cs) =
     (if old \<noteq> [] \<and> prefix old (c # cs)
      then [] # cutAt old (drop (length old) (c # cs))
      else (case cutAt old cs of [] \<Rightarrow> [[c]] | p # ps \<Rightarrow> (c # p) # ps))"

fun joinWith :: "string \<Rightarrow> string list \<Rightarrow> string" where
  "joinWith sep [] = []"
| "joinWith sep [p] = p"
| "joinWith sep (p # q # ps) = p @ sep @ joinWith sep (q # ps)"

subsection \<open>A scripted client for concrete runs\<close>

text \<open>
  A client that fails exactly the calls a predicate selects, counts the calls it has
  served, and hands out an ARN made of the resource name.
\<close>

definition scriptedError :: "error" where
  "scriptedError = RemoteError ''remote call failed''"

definition scriptedClient :: "(call \<Rightarrow> bool) \<Rightarrow> nat Client" where
  "scriptedClient fails =
     \<lparr>CreateS3Bucket = (\<lambda>name w. (if fails (CallCreateS3Bucket name) then Some scriptedError else None, Suc w)),
      CreatePolicy = (\<lambda>name payload w.
         (if fails (CallCreatePolicy name payload) then Inl scriptedError else Inr (''arn:aws:iam::policy/'' @ name), Suc w)),
      CreateRole = (\<lambda>name payload w.
         (if fails (CallCreateRole name payload) then Inl scriptedError else Inr (''arn:aws:iam::role/'' @ name), Suc w)),
      BindPolicyToRole = (\<lambda>policyArn roleName w.
         (if fails (CallBindPolicyToRole policyArn roleName) then Some scriptedError else None, Suc w)),
      UnBindPolicyToRole = (\<lambda>policyArn roleName w.
         (if fails (CallUnBindPolicyToRole policyArn roleName) then Some scriptedError else None, Suc w)),
      DestroyPolicy = (\<lambda>policyArn w. (if fails (CallDestroyPolicy policyArn) then Some scriptedError else None, Suc w)),
      DestroyRole = (\<lambda>roleName w. (if fails (CallDestroyRole roleName) then Some scriptedError else None, Suc w)),
      DestroyS3Bucket = (\<lambda>bucket w. (if fails (CallDestroyS3Bucket bucket) then Some scriptedError else None, Suc w))\<rparr>"

text \<open>
  A client whose state is the list of the calls it has received, each operation adding
  its own call; a predicate on the calls received so far and the call at hand selects
  the calls that fail.
\<close>

definition recordingClient :: "(call list \<Rightarrow> call \<Rightarrow> bool) \<Rightarrow> call list Client" where
  "recordingClient fails =
     \<lparr>CreateS3Bucket = (\<lambda>name w.
         (if fails w (CallCreateS3Bucket name) then Some scriptedError else None,
          w @ [CallCreateS3Bucket name])),
      CreatePolicy = (\<lambda>name payload w.
         (if fails w (CallCreatePolicy name payload) then Inl scriptedError
          else Inr (''arn:aws:iam::policy/'' @ name),
          w @ [CallCreatePolicy name payload])),
      CreateRole = (\<lambda>name payload w.
         (if fails w (CallCreateRole name payload) then Inl scriptedError
          else Inr (''arn:aws:iam::role/'' @ name),
          w @ [CallCreateRole name payload])),
      BindPolicyToRole = (\<lambda>policyArn roleName w.
         (if fails w (CallBindPolicyToRole policyArn roleName) then Some scriptedError else None,
          w @ [CallBindPolicyToRole policyArn roleName])),
      UnBindPolicyToRole = (\<lambda>policyArn roleName w.
         (if fails w (CallUnBindPolicyToRole policyArn roleName) then Some scriptedError else None,
          w @ [CallUnBindPolicyToRole policyArn roleName])),
      DestroyPolicy = (\<lambda>policyArn w.
         (if fails w (CallDestroyPolicy policyArn) then Some scriptedError else None,
          w @ [CallDestroyPolicy policyArn])),
      DestroyRole = (\<lambda>roleName w.
         (if fails w (CallDestroyRole roleName) then Some scriptedError else None,
          w @ [CallDestroyRole roleName])),
      DestroyS3Bucket = (\<lambda>bucket w.
         (if fails w (CallDestroyS3Bucket bucket) then Some scriptedError else None,
          w @ [CallDestroyS3Bucket bucket]))\<rparr>"

subsection \<open>Concrete inputs for the worked runs\<close>

definition exampleRequest :: CreateRequest where
  "exampleRequest =
     \<lparr>ApplicationType = ''/insights/platform/cost-management'',
      SuperKeySteps =
        [\<lparr>Name = ''s3'', Payload = '''', Substitutions = []\<rparr>,
         \<lparr>Name = ''policy'', Payload = ''arn:{{BUCKET}}'', Substitutions = [(''{{BUCKET}}'', ''s3'')]\<rparr>,
         \<lparr>Name = ''sqs'', Payload = '''', Substitutions = []\<rparr>,
         \<lparr>Name = ''role'', Payload = ''trust {{ACCOUNT}}'', Substitutions = [(''{{ACCOUNT}}'', ''get_account'')]\<rparr>,
         \<lparr>Name = ''bind_role'', Payload = '''', Substitutions = []\<rparr>],
      Extra = [''account'' \<mapsto> ''1234'']\<rparr>"

definition exampleRnd :: "8 word list" where
  "exampleRnd = [1, 2, 3, 4, 5, 6, 7, 8]"

definition bucketRequest :: CreateRequest where
  "bucketRequest = exampleRequest\<lparr>SuperKeySteps := [\<lparr>Name = ''s3'', Payload = '''', Substitutions = []\<rparr>]\<rparr>"

definition bindRequest :: CreateRequest where
  "bindRequest = exampleRequest\<lparr>SuperKeySteps := [\<lparr>Name = ''bind_role'', Payload = '''', Substitutions = []\<rparr>]\<rparr>"

text \<open>The ledgers of the example request: after its policy step, and after all steps.\<close>

definition ledgerAfterPolicy :: ForgedApplication where
  "ledgerAfterPolicy =
     \<lparr>StepsCompleted =
        [''s3'' \<mapsto> [''output'' \<mapsto> ''redhat-cost-management-bucket-0102030405060708''],
         ''policy'' \<mapsto> [''output'' \<mapsto> ''arn:aws:iam::policy/redhat-cost-management-policy-0102030405060708'']],
      Request = exampleRequest, GUID = ''0102030405060708'',
      resultUsername = None, resultPassword = None, resultExtra = None\<rparr>"

definition forgedLedger :: ForgedApplication where
  "forgedLedger =
     \<lparr>StepsCompleted =
        [''s3'' \<mapsto> [''output'' \<mapsto> ''redhat-cost-management-bucket-0102030405060708''],
         ''policy'' \<mapsto> [''output'' \<mapsto> ''arn:aws:iam::policy/redhat-cost-management-policy-0102030405060708''],
         ''role'' \<mapsto> [''output'' \<mapsto> ''redhat-cost-management-role-0102030405060708'',
                       ''arn'' \<mapsto> ''arn:aws:iam::role/redhat-cost-management-role-0102030405060708''],
         ''bind_role'' \<mapsto> Map.empty],
      Request = exampleRequest, GUID = ''0102030405060708'',
      resultUsername = Some ''arn:aws:iam::role/redhat-cost-management-role-0102030405060708'',
      resultPassword = None, resultExtra = None\<rparr>"

definition exampleCalls :: "(call \<times> error option) list" where
  "exampleCalls =
     [(CallCreateS3Bucket ''redhat-cost-management-bucket-0102030405060708'', None),
      (CallCreatePolicy ''redhat-cost-management-policy-0102030405060708''
         ''arn:redhat-cost-management-bucket-0102030405060708'', None),
      (CallCreateRole ''redhat-cost-management-role-0102030405060708'' ''trust 1234'', None),
      (CallBindPolicyToRole ''arn:aws:iam::policy/redhat-cost-management-policy-0102030405060708''
         ''redhat-cost-management-role-0102030405060708'', None)]"

definition ledgerAfterBucket :: ForgedApplication where
  "ledgerAfterBucket =
     \<lparr>StepsCompleted =
        [''s3'' \<mapsto> [''output'' \<mapsto> ''redhat-cost-management-bucket-0102030405060708'']],
      Request = exampleRequest, GUID = ''0102030405060708'',
      resultUsername = None, resultPassword = None, resultExtra = None\<rparr>"

definition ledgerAfterRole :: ForgedApplication where
  "ledgerAfterRole =
     \<lparr>StepsCompleted =
        [''s3'' \<mapsto> [''output'' \<mapsto> ''redhat-cost-management-bucket-0102030405060708''],
         ''policy'' \<mapsto> [''output'' \<mapsto> ''arn:aws:iam::policy/redhat-cost-management-policy-0102030405060708''],
         ''role'' \<mapsto> [''output'' \<mapsto> ''redhat-cost-management-role-0102030405060708'',
                       ''arn'' \<mapsto> ''arn:aws:iam::role/redhat-cost-management-role-0102030405060708'']],
      Request = exampleRequest, GUID = ''0102030405060708'',
      resultUsername = None, resultPassword = None, resultExtra = None\<rparr>"

definition fullLedger :: ForgedApplication where
  "fullLedger =
     \<lparr>StepsCompleted =
        [''s3'' \<mapsto> [''output'' \<mapsto> ''my-bucket-abc123''],
         ''policy'' \<mapsto> [''output'' \<mapsto> ''arn:policy''],
         ''role'' \<mapsto> [''output'' \<mapsto> ''my-role'', ''arn'' \<mapsto> ''arn:role''],
         ''bind_role'' \<mapsto> Map.empty],
      Request = exampleRequest, GUID = ''0102030405060708'',
      resultUsername = Some ''arn:role'', resultPassword = None, resultExtra = None\<rparr>"

definition duplicateRequest :: CreateRequest where
  "duplicateRequest = exampleRequest\<lparr>SuperKeySteps :=
     [\<lparr>Name = ''s3'', Payload = '''', Substitutions = []\<rparr>,
      \<lparr>Name = ''s3'', Payload = '''', Substitutions = []\<rparr>]\<rparr>"

definition failsAfterFirst :: "call list \<Rightarrow> call \<Rightarrow> bool" where
  "failsAfterFirst received c = (received \<noteq> [])"

definition failsPolicyAndBucket :: "call \<Rightarrow> bool" where
  "failsPolicyAndBucket c = (case c of CallDestroyPolicy _ \<Rightarrow> True | CallDestroyS3Bucket _ \<Rightarrow> True | _ \<Rightarrow> False)"

definition failsCreateRole :: "call \<Rightarrow> bool" where
  "failsCreateRole c = (case c of CallCreateRole _ _ \<Rightarrow> True | _ \<Rightarrow> False)"

section \<open>Properties of TearDown\<close>

subsection \<open>The calls and errors of one run\<close>

lemma failures_append: "failures (xs @ ys) = failures xs @ failures ys"
  by (induction xs rule: failures.induct) simp_all

lemma length_failures: "length (failures tr) = length (filter (\<lambda>x. snd x \<noteq> None) tr)"
  by (induction tr rule: failures.induct) simp_all

lemma issued_append: "issued (tr, w) (tr @ new, w') = new"
  by (simp add: issued_def)

lemma TearDown_cleanup:
  "TearDown a f r =
     (case cleanup (StepsCompleted f ''s3'' \<noteq> None)
             (CallDestroyS3Bucket (readOutput (StepsCompleted f) ''s3'' ''output''))
             (DestroyS3Bucket a (readOutput (StepsCompleted f) ''s3'' ''output''))
          (cleanup (StepsCompleted f ''role'' \<noteq> None)
             (CallDestroyRole (readOutput (StepsCompleted f) ''role'' ''output''))
             (DestroyRole a (readOutput (StepsCompleted f) ''role'' ''output''))
          (cleanup (StepsCompleted f ''policy'' \<noteq> None)
             (CallDestroyPolicy (readOutput (StepsCompleted f) ''policy'' ''output''))
             (DestroyPolicy a (readOutput (StepsCompleted f) ''policy'' ''output''))
          (cleanup (StepsCompleted f ''bind_role'' \<noteq> None)
             (CallUnBindPolicyToRole (readOutput (StepsCompleted f) ''policy'' ''output'')
                (readOutput (StepsCompleted f) ''role'' ''output''))
             (UnBindPolicyToRole a (readOutput (StepsCompleted f) ''policy'' ''output'')
                (readOutput (StepsCompleted f) ''role'' ''output''))
             ([], r)))) of
        (errors, r') \<Rightarrow> (errors, f, r'))"
  unfolding TearDown_def cleanup_def Let_def case_prod_beta
  by (simp only: prod.collapse fst_conv snd_conv)

lemma cleanup_trace:
  "\<exists>new w'. cleanup p c op (es, tr, w) = (es @ failures new, tr @ new, w')
        \<and> map fst new = (if p then [c] else [])"
proof (cases p)
  case False
  then show ?thesis by (intro exI[of _ "[]"]) (simp add: cleanup_def)
next
  case True
  obtain err w' where op: "op w = (err, w')" by (cases "op w")
  show ?thesis
    using True op
    by (intro exI[of _ "[(c, err)]"]) (cases err; simp add: cleanup_def invoke_def appendErr_def)
qed

lemma TearDown_trace:
  "\<exists>new w'. TearDown a f (tr, w) = (failures new, f, tr @ new, w') \<and> map fst new = teardownCalls f"
proof -
  let ?sc = "StepsCompleted f"
  let ?p = "readOutput ?sc ''policy'' ''output''"
  let ?r = "readOutput ?sc ''role'' ''output''"
  let ?b = "readOutput ?sc ''s3'' ''output''"
  obtain n1 w1 where s1: "cleanup (?sc ''bind_role'' \<noteq> None) (CallUnBindPolicyToRole ?p ?r)
        (UnBindPolicyToRole a ?p ?r) ([], tr, w) = ([] @ failures n1, tr @ n1, w1)"
     and c1: "map fst n1 = (if ?sc ''bind_role'' \<noteq> None then [CallUnBindPolicyToRole ?p ?r] else [])"
    using cleanup_trace[of "?sc ''bind_role'' \<noteq> None" "CallUnBindPolicyToRole ?p ?r" "UnBindPolicyToRole a ?p ?r" "[]" tr w] by blast
  obtain n2 w2 where s2: "cleanup (?sc ''policy'' \<noteq> None) (CallDestroyPolicy ?p)
        (DestroyPolicy a ?p) ([] @ failures n1, tr @ n1, w1) = (([] @ failures n1) @ failures n2, (tr @ n1) @ n2, w2)"
     and c2: "map fst n2 = (if ?sc ''policy'' \<noteq> None then [CallDestroyPolicy ?p] else [])"
    using cleanup_trace[of "?sc ''policy'' \<noteq> None" "CallDestroyPolicy ?p" "DestroyPolicy a ?p" "[] @ failures n1" "tr @ n1" w1] by blast
  obtain n3 w3 where s3: "cleanup (?sc ''role'' \<noteq> None) (CallDestroyRole ?r)
        (DestroyRole a ?r) (([] @ failures n1) @ failures n2, (tr @ n1) @ n2, w2)
        = ((([] @ failures n1) @ failures n2) @ failures n3, ((tr @ n1) @ n2) @ n3, w3)"
     and c3: "map fst n3 = (if ?sc ''role'' \<noteq> None then [CallDestroyRole ?r] else [])"
    using cleanup_trace[of "?sc ''role'' \<noteq> None" "CallDestroyRole ?r" "DestroyRole a ?r" "([] @ failures n1) @ failures n2" "(tr @ n1) @ n2" w2] by blast
  obtain n4 w4 where s4: "cleanup (?sc ''s3'' \<noteq> None) (CallDestroyS3Bucket ?b)
        (DestroyS3Bucket a ?b) ((([] @ failures n1) @ failures n2) @ failures n3, ((tr @ n1) @ n2) @ n3, w3)
        = (((([] @ failures n1) @ failures n2) @ failures n3) @ failures n4, (((tr @ n1) @ n2) @ n3) @ n4, w4)"
     and c4: "map fst n4 = (if ?sc ''s3'' \<noteq> None then [CallDestroyS3Bucket ?b] else [])"
    using cleanup_trace[of "?sc ''s3'' \<noteq> None" "CallDestroyS3Bucket ?b" "DestroyS3Bucket a ?b" "(([] @ failures n1) @ failures n2) @ failures n3" "((tr @ n1) @ n2) @ n3" w3] by blast
  have "TearDown a f (tr, w) = (failures (n1 @ n2 @ n3 @ n4), f, tr @ (n1 @ n2 @ n3 @ n4), w4)"
    unfolding TearDown_cleanup s1 s2 s3 s4 by (simp add: failures_append)
  moreover have "map fst (n1 @ n2 @ n3 @ n4) = teardownCalls f"
    unfolding teardownCalls_def map_append c1 c2 c3 c4 by (rule refl)
  ultimately show ?thesis by blast
qed

lemma TearDown_result:
  assumes "TearDown a f r = (errors, f', r')"
  shows "f' = f" and "fst r' = fst r @ issued r r'"
    and "map fst (issued r r') = teardownCalls f" and "errors = failures (issued r r')"
proof -
  obtain tr w where r: "r = (tr, w)" by (cases r)
  obtain new w' where t: "TearDown a f (tr, w) = (failures new, f, tr @ new, w')"
      and c: "map fst new = teardownCalls f"
    using TearDown_trace[of a f tr w] by blast
  from assms r t have e: "errors = failures new" and f: "f' = f" and r': "r' = (tr @ new, w')"
    by simp_all
  show "f' = f" by (rule f)
  show "fst r' = fst r @ issued r r'" unfolding r r' by (simp add: issued_append)
  show "map fst (issued r r') = teardownCalls f" unfolding r r' using c by (simp add: issued_append)
  show "errors = failures (issued r r')" unfolding r r' e by (simp add: issued_append)
qed

lemma teardownCalls_kinds:
  "c \<in> set (teardownCalls f) \<Longrightarrow> \<exists>kind. cleanupKind c = Some kind \<and> StepsCompleted f kind \<noteq> None"
  by (auto simp: teardownCalls_def split: if_splits)

lemma teardownCalls_present:
  "kind \<in> {''bind_role'', ''policy'', ''role'', ''s3''} \<Longrightarrow> StepsCompleted f kind \<noteq> None
     \<Longrightarrow> \<exists>c \<in> set (teardownCalls f). cleanupKind c = Some kind"
  by (auto simp: teardownCalls_def)

lemma teardownCalls_full:
  "StepsCompleted f ''s3'' \<noteq> None \<Longrightarrow> StepsCompleted f ''policy'' \<noteq> None
   \<Longrightarrow> StepsCompleted f ''role'' \<noteq> None \<Longrightarrow> StepsCompleted f ''bind_role'' \<noteq> None
   \<Longrightarrow> teardownCalls f =
        [CallUnBindPolicyToRole (readOutput (StepsCompleted f) ''policy'' ''output'')
           (readOutput (StepsCompleted f) ''role'' ''output''),
         CallDestroyPolicy (readOutput (StepsCompleted f) ''policy'' ''output''),
         CallDestroyRole (readOutput (StepsCompleted f) ''role'' ''output''),
         CallDestroyS3Bucket (readOutput (StepsCompleted f) ''s3'' ''output'')]"
  by (simp add: teardownCalls_def)

lemma performAll_snoc:
  "performAll a cs w0 = (new, w) \<Longrightarrow> perform a c w = (err, w')
     \<Longrightarrow> performAll a (cs @ [c]) w0 = (new @ [(c, err)], w')"
  by (induction cs arbitrary: w0 new) (auto split: prod.splits)

lemma cleanup_perform:
  assumes sofar: "performAll a cs w0 = (new, w)"
      and op: "op = perform a c"
  shows "\<exists>new' w'. performAll a (cs @ (if p then [c] else [])) w0 = (new', w')
           \<and> cleanup p c op (failures new, tr0 @ new, w) = (failures new', tr0 @ new', w')"
proof (cases p)
  case False
  with sofar show ?thesis by (simp add: cleanup_def)
next
  case True
  obtain err w' where pf: "perform a c w = (err, w')" by (cases "perform a c w")
  have "performAll a (cs @ [c]) w0 = (new @ [(c, err)], w')"
    using performAll_snoc[OF sofar pf] .
  moreover have "cleanup p c op (failures new, tr0 @ new, w)
                   = (failures (new @ [(c, err)]), tr0 @ new @ [(c, err)], w')"
    using True pf op by (cases err) (simp_all add: cleanup_def invoke_def appendErr_def failures_append)
  ultimately show ?thesis using True by simp
qed

lemma TearDown_performs:
  "\<exists>new w'. performAll a (teardownCalls f) w = (new, w')
       \<and> TearDown a f (tr, w) = (failures new, f, tr @ new, w')"
proof -
  let ?sc = "StepsCompleted f"
  let ?p = "readOutput ?sc ''policy'' ''output''"
  let ?r = "readOutput ?sc ''role'' ''output''"
  let ?b = "readOutput ?sc ''s3'' ''output''"
  let ?c1 = "if ?sc ''bind_role'' \<noteq> None then [CallUnBindPolicyToRole ?p ?r] else []"
  let ?c2 = "if ?sc ''policy'' \<noteq> None then [CallDestroyPolicy ?p] else []"
  let ?c3 = "if ?sc ''role'' \<noteq> None then [CallDestroyRole ?r] else []"
  let ?c4 = "if ?sc ''s3'' \<noteq> None then [CallDestroyS3Bucket ?b] else []"
  have ops: "UnBindPolicyToRole a ?p ?r = perform a (CallUnBindPolicyToRole ?p ?r)"
    "DestroyPolicy a ?p = perform a (CallDestroyPolicy ?p)"
    "DestroyRole a ?r = perform a (CallDestroyRole ?r)"
    "DestroyS3Bucket a ?b = perform a (CallDestroyS3Bucket ?b)"
    by (simp_all add: fun_eq_iff)
  have s0: "performAll a [] w = ([], w)" by simp
  obtain n1 w1 where p1: "performAll a ([] @ ?c1) w = (n1, w1)"
      and s1: "cleanup (?sc ''bind_role'' \<noteq> None) (CallUnBindPolicyToRole ?p ?r)
                 (UnBindPolicyToRole a ?p ?r) (failures [], tr @ [], w) = (failures n1, tr @ n1, w1)"
    using cleanup_perform[OF s0 ops(1), of "?sc ''bind_role'' \<noteq> None" tr] by blast
  obtain n2 w2 where p2: "performAll a (([] @ ?c1) @ ?c2) w = (n2, w2)"
      and s2: "cleanup (?sc ''policy'' \<noteq> None) (CallDestroyPolicy ?p)
                 (DestroyPolicy a ?p) (failures n1, tr @ n1, w1) = (failures n2, tr @ n2, w2)"
    using cleanup_perform[OF p1 ops(2), of "?sc ''policy'' \<noteq> None" tr] by blast
  obtain n3 w3 where p3: "performAll a ((([] @ ?c1) @ ?c2) @ ?c3) w = (n3, w3)"
      and s3: "cleanup (?sc ''role'' \<noteq> None) (CallDestroyRole ?r)
                 (DestroyRole a ?r) (failures n2, tr @ n2, w2) = (failures n3, tr @ n3, w3)"
    using cleanup_perform[OF p2 ops(3), of "?sc ''role'' \<noteq> None" tr] by blast
  obtain n4 w4 where p4: "performAll a (((([] @ ?c1) @ ?c2) @ ?c3) @ ?c4) w = (n4, w4)"
      and s4: "cleanup (?sc ''s3'' \<noteq> None) (CallDestroyS3Bucket ?b)
                 (DestroyS3Bucket a ?b) (failures n3, tr @ n3, w3) = (failures n4, tr @ n4, w4)"
    using cleanup_perform[OF p3 ops(4), of "?sc ''s3'' \<noteq> None" tr] by blast
  have calls: "(((([] @ ?c1) @ ?c2) @ ?c3) @ ?c4) = teardownCalls f"
    unfolding teardownCalls_def by simp
  have start: "([], tr, w) = (failures [], tr @ [], w)" by simp
  have "TearDown a f (tr, w) = (failures n4, f, tr @ n4, w4)"
    unfolding TearDown_cleanup start s1 s2 s3 s4 by simp
  with p4 calls show ?thesis by auto
qed

lemma TearDown_effect:
  assumes "TearDown a f r = (errors, f', r')"
  shows "f' = f" and "fst r' = fst r @ issued r r'"
    and "(issued r r', snd r') = performAll a (teardownCalls f) (snd r)"
    and "errors = failures (issued r r')"
proof -
  obtain tr w where r: "r = (tr, w)" by (cases r)
  obtain new w' where pf: "performAll a (teardownCalls f) w = (new, w')"
      and t: "TearDown a f (tr, w) = (failures new, f, tr @ new, w')"
    using TearDown_performs[of a f w tr] by blast
  from assms r t have e: "errors = failures new" and f: "f' = f" and r': "r' = (tr @ new, w')"
    by simp_all
  show "f' = f" by (rule f)
  show "fst r' = fst r @ issued r r'" unfolding r r' by (simp add: issued_append)
  show "(issued r r', snd r') = performAll a (teardownCalls f) (snd r)"
    unfolding r r' by (simp add: issued_append pf)
  show "errors = failures (issued r r')" unfolding r r' e by (simp add: issued_append)
qed

lemma map_fst_performAll: "map fst (fst (performAll a cs w)) = cs"
  by (induction cs arbitrary: w) (simp_all add: case_prod_beta)

text \<open>
  C8. For every ledger whose \<^verbatim>\<open>StepsCompleted\<close> mapping is empty, \<^verbatim>\<open>TearDown\<close> performs
  zero remote calls (the record of calls and the remote state are as before) and returns
  an empty error list.
\<close>

theorem TearDown_empty_ledger:
  "StepsCompleted f = Map.empty \<Longrightarrow> TearDown a f r = ([], f, r)"
  by (simp add: TearDown_def)

theorem TearDown_empty_ledger_witness:
  "StepsCompleted (freshLedger exampleRequest []) = Map.empty
   \<and> TearDown (scriptedClient (\<lambda>c. True)) (freshLedger exampleRequest []) ([(CallCreateS3Bucket ''b'', Some scriptedError)], 1)
       = ([], freshLedger exampleRequest [], ([(CallCreateS3Bucket ''b'', Some scriptedError)], 1))"
proof -
  have h: "StepsCompleted (freshLedger exampleRequest []) = Map.empty"
    by (simp add: freshLedger_def)
  show ?thesis
    using h TearDown_empty_ledger[OF h] by simp
qed

text \<open>
  C2. For every ledger, \<^verbatim>\<open>TearDown\<close> acts on a step kind only if its \<^verbatim>\<open>StepsCompleted\<close>
  entry is present: the calls it records and the state it leaves the remote side in are
  those of running the client's operations for exactly the recorded calls, in order, and
  every one of them is the cleanup call of a kind whose entry is present. For a ledger
  with \<^verbatim>\<open>s3\<close>, \<^verbatim>\<open>policy\<close>, \<^verbatim>\<open>role\<close> and \<^verbatim>\<open>bind_role\<close> all completed, the client's operations run
  are, each on the state the one before left: unbind the policy from the role, destroy
  the policy, destroy the role, destroy the bucket. (The specification allows either
  order of the two middle calls; the code always destroys the policy before the role.)
\<close>

theorem TearDown_reverse_order:
  assumes "TearDown a f r = (errors, f', r')"
  shows "fst r' = fst r @ issued r r'
       \<and> (issued r r', snd r') = performAll a (map fst (issued r r')) (snd r)
       \<and> (\<forall>c \<in> set (map fst (issued r r')). \<exists>kind. cleanupKind c = Some kind \<and> StepsCompleted f kind \<noteq> None)
       \<and> (StepsCompleted f ''s3'' \<noteq> None \<and> StepsCompleted f ''policy'' \<noteq> None
            \<and> StepsCompleted f ''role'' \<noteq> None \<and> StepsCompleted f ''bind_role'' \<noteq> None
          \<longrightarrow> (let policyArn = readOutput (StepsCompleted f) ''policy'' ''output'';
                    role = readOutput (StepsCompleted f) ''role'' ''output'';
                    bucket = readOutput (StepsCompleted f) ''s3'' ''output'';
                    unbound = UnBindPolicyToRole a policyArn role (snd r);
                    policyGone = DestroyPolicy a policyArn (snd unbound);
                    roleGone = DestroyRole a role (snd policyGone);
                    bucketGone = DestroyS3Bucket a bucket (snd roleGone)
                in issued r r' =
                     [(CallUnBindPolicyToRole policyArn role, fst unbound),
                      (CallDestroyPolicy policyArn, fst policyGone),
                      (CallDestroyRole role, fst roleGone),
                      (CallDestroyS3Bucket bucket, fst bucketGone)]
                   \<and> snd r' = snd bucketGone))"
proof -
  note eff = TearDown_effect[OF assms]
  have calls: "map fst (issued r r') = teardownCalls f"
    using arg_cong[OF eff(3), of "\<lambda>x. map fst (fst x)"] by (simp add: map_fst_performAll)
  have all: "(issued r r', snd r') = performAll a (map fst (issued r r')) (snd r)"
    unfolding calls by (rule eff(3))
  have kinds: "\<forall>c \<in> set (map fst (issued r r')). \<exists>kind. cleanupKind c = Some kind \<and> StepsCompleted f kind \<noteq> None"
    unfolding calls using teardownCalls_kinds[of _ f] by blast
  have full: "StepsCompleted f ''s3'' \<noteq> None \<and> StepsCompleted f ''policy'' \<noteq> None
            \<and> StepsCompleted f ''role'' \<noteq> None \<and> StepsCompleted f ''bind_role'' \<noteq> None
          \<longrightarrow> (let policyArn = readOutput (StepsCompleted f) ''policy'' ''output'';
                    role = readOutput (StepsCompleted f) ''role'' ''output'';
                    bucket = readOutput (StepsCompleted f) ''s3'' ''output'';
                    unbound = UnBindPolicyToRole a policyArn role (snd r);
                    policyGone = DestroyPolicy a policyArn (snd unbound);
                    roleGone = DestroyRole a role (snd policyGone);
                    bucketGone = DestroyS3Bucket a bucket (snd roleGone)
                in issued r r' =
                     [(CallUnBindPolicyToRole policyArn role, fst unbound),
                      (CallDestroyPolicy policyArn, fst policyGone),
                      (CallDestroyRole role, fst roleGone),
                      (CallDestroyS3Bucket bucket, fst bucketGone)]
                   \<and> snd r' = snd bucketGone)"
  proof (intro impI, elim conjE)
    assume "StepsCompleted f ''s3'' \<noteq> None" "StepsCompleted f ''policy'' \<noteq> None"
      "StepsCompleted f ''role'' \<noteq> None" "StepsCompleted f ''bind_role'' \<noteq> None"
    then have tc: "teardownCalls f =
        [CallUnBindPolicyToRole (readOutput (StepsCompleted f) ''policy'' ''output'')
           (readOutput (StepsCompleted f) ''role'' ''output''),
         CallDestroyPolicy (readOutput (StepsCompleted f) ''policy'' ''output''),
         CallDestroyRole (readOutput (StepsCompleted f) ''role'' ''output''),
         CallDestroyS3Bucket (readOutput (StepsCompleted f) ''s3'' ''output'')]"
      by (rule teardownCalls_full)
    show "(let policyArn = readOutput (StepsCompleted f) ''policy'' ''output'';
                    role = readOutput (StepsCompleted f) ''role'' ''output'';
                    bucket = readOutput (StepsCompleted f) ''s3'' ''output'';
                    unbound = UnBindPolicyToRole a policyArn role (snd r);
                    policyGone = DestroyPolicy a policyArn (snd unbound);
                    roleGone = DestroyRole a role (snd policyGone);
                    bucketGone = DestroyS3Bucket a bucket (snd roleGone)
                in issued r r' =
                     [(CallUnBindPolicyToRole policyArn role, fst unbound),
                      (CallDestroyPolicy policyArn, fst policyGone),
                      (CallDestroyRole role, fst roleGone),
                      (CallDestroyS3Bucket bucket, fst bucketGone)]
                   \<and> snd r' = snd bucketGone)"
      using eff(3) unfolding tc by (simp add: Let_def case_prod_beta)
  qed
  from eff(2) all kinds full show ?thesis by blast
qed

theorem TearDown_reverse_order_witness:
  "TearDown (recordingClient (\<lambda>h c. False)) fullLedger ([], []) =
     ([], fullLedger,
      [(CallUnBindPolicyToRole ''arn:policy'' ''my-role'', None),
       (CallDestroyPolicy ''arn:policy'', None),
       (CallDestroyRole ''my-role'', None),
       (CallDestroyS3Bucket ''my-bucket-abc123'', None)],
      [CallUnBindPolicyToRole ''arn:policy'' ''my-role'', CallDestroyPolicy ''arn:policy'',
       CallDestroyRole ''my-role'', CallDestroyS3Bucket ''my-bucket-abc123''])
   \<and> StepsCompleted fullLedger ''s3'' \<noteq> None \<and> StepsCompleted fullLedger ''policy'' \<noteq> None
   \<and> StepsCompleted fullLedger ''role'' \<noteq> None \<and> StepsCompleted fullLedger ''bind_role'' \<noteq> None
   \<and> map cleanupKind
        [CallUnBindPolicyToRole ''arn:policy'' ''my-role'', CallDestroyPolicy ''arn:policy'',
         CallDestroyRole ''my-role'', CallDestroyS3Bucket ''my-bucket-abc123'']
       = [Some ''bind_role'', Some ''policy'', Some ''role'', Some ''s3'']
   \<and> snd (DestroyS3Bucket (recordingClient (\<lambda>h c. False)) ''my-bucket-abc123''
        (snd (DestroyRole (recordingClient (\<lambda>h c. False)) ''my-role''
          (snd (DestroyPolicy (recordingClient (\<lambda>h c. False)) ''arn:policy''
            (snd (UnBindPolicyToRole (recordingClient (\<lambda>h c. False)) ''arn:policy'' ''my-role'' []))))))) =
      [CallUnBindPolicyToRole ''arn:policy'' ''my-role'', CallDestroyPolicy ''arn:policy'',
       CallDestroyRole ''my-role'', CallDestroyS3Bucket ''my-bucket-abc123'']"
proof -
  have run: "TearDown (recordingClient (\<lambda>h c. False)) fullLedger ([], []) =
     ([], fullLedger,
      [(CallUnBindPolicyToRole ''arn:policy'' ''my-role'', None),
       (CallDestroyPolicy ''arn:policy'', None),
       (CallDestroyRole ''my-role'', None),
       (CallDestroyS3Bucket ''my-bucket-abc123'', None)],
      [CallUnBindPolicyToRole ''arn:policy'' ''my-role'', CallDestroyPolicy ''arn:policy'',
       CallDestroyRole ''my-role'', CallDestroyS3Bucket ''my-bucket-abc123''])"
    by (simp add: TearDown_def fullLedger_def recordingClient_def invoke_def appendErr_def readOutput_def Let_def)
  have present: "StepsCompleted fullLedger ''s3'' \<noteq> None \<and> StepsCompleted fullLedger ''policy'' \<noteq> None
       \<and> StepsCompleted fullLedger ''role'' \<noteq> None \<and> StepsCompleted fullLedger ''bind_role'' \<noteq> None"
    by (simp add: fullLedger_def)
  have kinds: "map cleanupKind
        [CallUnBindPolicyToRole ''arn:policy'' ''my-role'', CallDestroyPolicy ''arn:policy'',
         CallDestroyRole ''my-role'', CallDestroyS3Bucket ''my-bucket-abc123'']
       = [Some ''bind_role'', Some ''policy'', Some ''role'', Some ''s3'']"
    by simp
  have out: "readOutput (StepsCompleted fullLedger) ''policy'' ''output'' = ''arn:policy''"
    "readOutput (StepsCompleted fullLedger) ''role'' ''output'' = ''my-role''"
    "readOutput (StepsCompleted fullLedger) ''s3'' ''output'' = ''my-bucket-abc123''"
    by (simp_all add: fullLedger_def readOutput_def)
  note th = TearDown_reverse_order[OF run]
  have "snd (([(CallUnBindPolicyToRole ''arn:policy'' ''my-role'', None),
       (CallDestroyPolicy ''arn:policy'', None),
       (CallDestroyRole ''my-role'', None),
       (CallDestroyS3Bucket ''my-bucket-abc123'', None)],
      [CallUnBindPolicyToRole ''arn:policy'' ''my-role'', CallDestroyPolicy ''arn:policy'',
       CallDestroyRole ''my-role'', CallDestroyS3Bucket ''my-bucket-abc123'']) :: call list remote)
     = snd (DestroyS3Bucket (recordingClient (\<lambda>h c. False)) ''my-bucket-abc123''
        (snd (DestroyRole (recordingClient (\<lambda>h c. False)) ''my-role''
          (snd (DestroyPolicy (recordingClient (\<lambda>h c. False)) ''arn:policy''
            (snd (UnBindPolicyToRole (recordingClient (\<lambda>h c. False)) ''arn:policy'' ''my-role'' [])))))))"
    using th present unfolding out Let_def by (metis snd_conv)
  then have chain: "snd (DestroyS3Bucket (recordingClient (\<lambda>h c. False)) ''my-bucket-abc123''
        (snd (DestroyRole (recordingClient (\<lambda>h c. False)) ''my-role''
          (snd (DestroyPolicy (recordingClient (\<lambda>h c. False)) ''arn:policy''
            (snd (UnBindPolicyToRole (recordingClient (\<lambda>h c. False)) ''arn:policy'' ''my-role'' []))))))) =
      [CallUnBindPolicyToRole ''arn:policy'' ''my-role'', CallDestroyPolicy ''arn:policy'',
       CallDestroyRole ''my-role'', CallDestroyS3Bucket ''my-bucket-abc123'']"
    by simp
  show ?thesis
    using run present kinds chain
    by blast
qed

text \<open>
  C3. For every ledger, client and remote state, \<^verbatim>\<open>TearDown\<close> returns; the client's
  operations it runs are those of \<open>teardownCalls\<close>, one after the other, whatever each
  returns, so every cleanup action whose entry is present is attempted; and the returned
  list holds exactly the errors those operations returned, one for each failed call, in
  call order.
\<close>

theorem TearDown_collects_errors:
  "\<exists>errors r'. TearDown a f r = (errors, f, r')
     \<and> fst r' = fst r @ issued r r'
     \<and> (issued r r', snd r') = performAll a (teardownCalls f) (snd r)
     \<and> map fst (issued r r') = teardownCalls f
     \<and> (\<forall>kind \<in> {''bind_role'', ''policy'', ''role'', ''s3''}. StepsCompleted f kind \<noteq> None
           \<longrightarrow> (\<exists>c \<in> set (map fst (issued r r')). cleanupKind c = Some kind))
     \<and> errors = failures (issued r r')
     \<and> length errors = length (filter (\<lambda>x. snd x \<noteq> None) (issued r r'))"
proof -
  obtain errors f' r' where run: "TearDown a f r = (errors, f', r')"
    by (cases "TearDown a f r")
  note eff = TearDown_effect[OF run]
  have calls: "map fst (issued r r') = teardownCalls f"
    using arg_cong[OF eff(3), of "\<lambda>x. map fst (fst x)"] by (simp add: map_fst_performAll)
  have present: "\<forall>kind \<in> {''bind_role'', ''policy'', ''role'', ''s3''}. StepsCompleted f kind \<noteq> None
           \<longrightarrow> (\<exists>c \<in> set (map fst (issued r r')). cleanupKind c = Some kind)"
    unfolding calls using teardownCalls_present[of _ f] by blast
  have "length errors = length (filter (\<lambda>x. snd x \<noteq> None) (issued r r'))"
    unfolding eff(4) by (rule length_failures)
  with run eff calls present show ?thesis by blast
qed

theorem TearDown_collects_errors_witness:
  "TearDown (recordingClient (\<lambda>h. failsPolicyAndBucket)) fullLedger ([], []) =
     ([scriptedError, scriptedError], fullLedger,
      [(CallUnBindPolicyToRole ''arn:policy'' ''my-role'', None),
       (CallDestroyPolicy ''arn:policy'', Some scriptedError),
       (CallDestroyRole ''my-role'', None),
       (CallDestroyS3Bucket ''my-bucket-abc123'', Some scriptedError)],
      [CallUnBindPolicyToRole ''arn:policy'' ''my-role'', CallDestroyPolicy ''arn:policy'',
       CallDestroyRole ''my-role'', CallDestroyS3Bucket ''my-bucket-abc123''])
   \<and> teardownCalls fullLedger =
       [CallUnBindPolicyToRole ''arn:policy'' ''my-role'', CallDestroyPolicy ''arn:policy'',
        CallDestroyRole ''my-role'', CallDestroyS3Bucket ''my-bucket-abc123'']
   \<and> performAll (recordingClient (\<lambda>h. failsPolicyAndBucket)) (teardownCalls fullLedger) [] =
       ([(CallUnBindPolicyToRole ''arn:policy'' ''my-role'', None),
         (CallDestroyPolicy ''arn:policy'', Some scriptedError),
         (CallDestroyRole ''my-role'', None),
         (CallDestroyS3Bucket ''my-bucket-abc123'', Some scriptedError)],
        [CallUnBindPolicyToRole ''arn:policy'' ''my-role'', CallDestroyPolicy ''arn:policy'',
         CallDestroyRole ''my-role'', CallDestroyS3Bucket ''my-bucket-abc123''])
   \<and> StepsCompleted fullLedger ''role'' \<noteq> None \<and> StepsCompleted fullLedger ''s3'' \<noteq> None
   \<and> length (fst (TearDown (recordingClient (\<lambda>h. failsPolicyAndBucket)) fullLedger ([], []))) = 2"
proof -
  have run: "TearDown (recordingClient (\<lambda>h. failsPolicyAndBucket)) fullLedger ([], []) =
     ([scriptedError, scriptedError], fullLedger,
      [(CallUnBindPolicyToRole ''arn:policy'' ''my-role'', None),
       (CallDestroyPolicy ''arn:policy'', Some scriptedError),
       (CallDestroyRole ''my-role'', None),
       (CallDestroyS3Bucket ''my-bucket-abc123'', Some scriptedError)],
      [CallUnBindPolicyToRole ''arn:policy'' ''my-role'', CallDestroyPolicy ''arn:policy'',
       CallDestroyRole ''my-role'', CallDestroyS3Bucket ''my-bucket-abc123''])"
    by (simp add: TearDown_def fullLedger_def recordingClient_def failsPolicyAndBucket_def
          invoke_def appendErr_def readOutput_def Let_def)
  have tc: "teardownCalls fullLedger =
       [CallUnBindPolicyToRole ''arn:policy'' ''my-role'', CallDestroyPolicy ''arn:policy'',
        CallDestroyRole ''my-role'', CallDestroyS3Bucket ''my-bucket-abc123'']"
    by (simp add: teardownCalls_def fullLedger_def readOutput_def)
  have present: "StepsCompleted fullLedger ''role'' \<noteq> None \<and> StepsCompleted fullLedger ''s3'' \<noteq> None"
    by (simp add: fullLedger_def)
  show ?thesis
    using TearDown_collects_errors[of "recordingClient (\<lambda>h. failsPolicyAndBucket)" fullLedger "([], [])"]
      present
    unfolding run tc by (simp add: issued_def)
qed

text \<open>
  C9. \<^verbatim>\<open>TearDown\<close> never mutates the ledger it is given: whatever the remote calls return,
  the ledger after the call is the ledger before it (request, GUID, \<^verbatim>\<open>StepsCompleted\<close>
  and result fields alike), so no completed entry is removed. A second \<^verbatim>\<open>TearDown\<close> on
  the ledger the first one leaves, with any client and from any remote state, issues
  the same calls as the first.
\<close>

theorem TearDown_frame:
  assumes "TearDown a f r = (errors, f', r')"
      and "TearDown a2 f' r2 = (errors2, f'', r2')"
  shows "f' = f \<and> f'' = f \<and> StepsCompleted f'' = StepsCompleted f
       \<and> map fst (issued r2 r2') = map fst (issued r r')"
proof -
  note first = TearDown_result[OF assms(1)]
  note second = TearDown_result[OF assms(2)]
  show ?thesis
    using first(1) second(1) first(3) second(3) by simp
qed

theorem TearDown_frame_witness:
  "TearDown (scriptedClient (\<lambda>c. False)) fullLedger ([], 0) =
     ([], fullLedger,
      [(CallUnBindPolicyToRole ''arn:policy'' ''my-role'', None),
       (CallDestroyPolicy ''arn:policy'', None),
       (CallDestroyRole ''my-role'', None),
       (CallDestroyS3Bucket ''my-bucket-abc123'', None)], 4)
   \<and> TearDown (scriptedClient failsPolicyAndBucket) fullLedger ([], 0) =
     ([scriptedError, scriptedError], fullLedger,
      [(CallUnBindPolicyToRole ''arn:policy'' ''my-role'', None),
       (CallDestroyPolicy ''arn:policy'', Some scriptedError),
       (CallDestroyRole ''my-role'', None),
       (CallDestroyS3Bucket ''my-bucket-abc123'', Some scriptedError)], 4)
   \<and> StepsCompleted fullLedger ''policy'' \<noteq> None"
proof -
  have run1: "TearDown (scriptedClient (\<lambda>c. False)) fullLedger ([], 0) =
     ([], fullLedger,
      [(CallUnBindPolicyToRole ''arn:policy'' ''my-role'', None),
       (CallDestroyPolicy ''arn:policy'', None),
       (CallDestroyRole ''my-role'', None),
       (CallDestroyS3Bucket ''my-bucket-abc123'', None)], 4)"
    by (simp add: TearDown_def fullLedger_def scriptedClient_def invoke_def appendErr_def readOutput_def)
  have run2: "TearDown (scriptedClient failsPolicyAndBucket) fullLedger ([], 0) =
     ([scriptedError, scriptedError], fullLedger,
      [(CallUnBindPolicyToRole ''arn:policy'' ''my-role'', None),
       (CallDestroyPolicy ''arn:policy'', Some scriptedError),
       (CallDestroyRole ''my-role'', None),
       (CallDestroyS3Bucket ''my-bucket-abc123'', Some scriptedError)], 4)"
    by (simp add: TearDown_def fullLedger_def scriptedClient_def failsPolicyAndBucket_def
          invoke_def appendErr_def readOutput_def)
  show ?thesis
    using TearDown_frame[OF run1 run2] run1 run2 by (simp add: fullLedger_def)
qed

section \<open>Properties of the templater\<close>

lemma cutAt_nonempty: "cutAt old s \<noteq> []"
  by (induction old s rule: cutAt.induct) (auto split: list.splits)

lemma joinWith_Cons_Cons: "joinWith sep ((c # p) # ps) = c # joinWith sep (p # ps)"
  by (cases ps) simp_all

lemma joinWith_Nil_Cons: "ps \<noteq> [] \<Longrightarrow> joinWith sep ([] # ps) = sep @ joinWith sep ps"
  by (cases ps) simp_all

lemma prefix_drop_id: "prefix old s \<Longrightarrow> old @ drop (length old) s = s"
  by (auto simp: prefix_def)

lemma joinWith_cutAt: "old \<noteq> [] \<Longrightarrow> joinWith old (cutAt old s) = s"
proof (induction old s rule: cutAt.induct)
  case (1 old)
  then show ?case by simp
next
  case (2 old c cs)
  show ?case
  proof (cases "prefix old (c # cs)")
    case True
    with 2 show ?thesis
      by (simp add: joinWith_Nil_Cons cutAt_nonempty prefix_drop_id)
  next
    case False
    obtain p ps where cut: "cutAt old cs = p # ps"
      using cutAt_nonempty[of old cs] by (cases "cutAt old cs") auto
    with 2 False show ?thesis
      by (simp add: joinWith_Cons_Cons)
  qed
qed

lemma replaceEach_cutAt: "old \<noteq> [] \<Longrightarrow> replaceEach old new s = joinWith new (cutAt old s)"
proof (induction old s rule: cutAt.induct)
  case (1 old)
  then show ?case by simp
next
  case (2 old c cs)
  show ?case
  proof (cases "prefix old (c # cs)")
    case True
    with 2 show ?thesis
      by (simp add: joinWith_Nil_Cons cutAt_nonempty)
  next
    case False
    obtain p ps where cut: "cutAt old cs = p # ps"
      using cutAt_nonempty[of old cs] by (cases "cutAt old cs") auto
    with 2 False show ?thesis
      by (simp add: joinWith_Cons_Cons)
  qed
qed

lemma hd_cutAt_prefix: "prefix (hd (cutAt old s)) s"
  by (induction old s rule: cutAt.induct) (auto split: list.splits)

lemma cutAt_no_occurrence: "old \<noteq> [] \<Longrightarrow> piece \<in> set (cutAt old s) \<Longrightarrow> \<not> sublist old piece"
proof (induction old s arbitrary: piece rule: cutAt.induct)
  case (1 old)
  then show ?case by simp
next
  case (2 old c cs)
  show ?case
  proof (cases "prefix old (c # cs)")
    case True
    with 2 show ?thesis by auto
  next
    case False
    obtain p ps where cut: "cutAt old cs = p # ps"
      using cutAt_nonempty[of old cs] by (cases "cutAt old cs") auto
    have pre: "prefix p cs" using hd_cutAt_prefix[of old cs] cut by simp
    have "\<not> prefix old (c # p)"
    proof
      assume "prefix old (c # p)"
      moreover have "prefix (c # p) (c # cs)" using pre by simp
      ultimately have "prefix old (c # cs)" by (rule prefix_order.trans)
      with False show False by simp
    qed
    moreover have "\<not> sublist old p" using 2(2)[of p] 2(3) False cut by simp
    ultimately have head: "\<not> sublist old (c # p)" by (simp add: sublist_Cons_right)
    from 2(4) False cut have "piece = c # p \<or> piece \<in> set ps" by simp
    then show ?thesis
    proof
      assume "piece = c # p" with head show ?thesis by simp
    next
      assume "piece \<in> set ps"
      then show ?thesis using 2(2)[of piece] 2(3) False cut by simp
    qed
  qed
qed

lemma stringsReplaceAll_cutAt:
  "old \<noteq> [] \<Longrightarrow> stringsReplaceAll s old new = joinWith new (cutAt old s)"
  by (simp add: stringsReplaceAll_def replaceEach_cutAt joinWith_cutAt)

lemma substiteInPayload_append:
  "substiteInPayload payload f (xs @ ys) = substiteInPayload (substiteInPayload payload f xs) f ys"
  by (induction payload f xs rule: substiteInPayload.induct) (simp_all add: Let_def)

section \<open>Properties of ForgeApplication\<close>

subsection \<open>One step, and the loop\<close>

lemma forgeStep_unrecognized:
  "\<not> recognized (Name step) \<Longrightarrow> forgeStep a step f r = (f, None, r)"
  by (simp add: forgeStep_def recognized_def)

lemma forgeStep_recognized:
  assumes "recognized (Name step)" and "forgeStep a step f r = (f', err, r')"
  shows "\<exists>c. fst r' = fst r @ [(c, err)]"
    and "err \<noteq> None \<Longrightarrow> f' = f"
    and "err = None \<Longrightarrow> \<exists>data. f' = MarkCompleted (Name step) data f"
  using assms
  by (auto simp: forgeStep_def recognized_def invoke_def invokeArn_def errorOf_def Let_def
           split: if_splits prod.splits option.splits sum.splits)

lemma forgeSteps_append:
  "forgeSteps a (xs @ ys) f r =
     (case forgeSteps a xs f r of
        (f', Some e, r') \<Rightarrow> (f', Some e, r')
      | (f', None, r') \<Rightarrow> forgeSteps a ys f' r')"
  by (induction xs arbitrary: f r) (auto split: prod.splits option.splits)

lemma MarkCompleted_fields:
  "dom (StepsCompleted (MarkCompleted n d f)) = insert n (dom (StepsCompleted f))"
  "Request (MarkCompleted n d f) = Request f"
  "GUID (MarkCompleted n d f) = GUID f"
  "resultUsername (MarkCompleted n d f) = resultUsername f"
  "resultPassword (MarkCompleted n d f) = resultPassword f"
  "resultExtra (MarkCompleted n d f) = resultExtra f"
  by (simp_all add: MarkCompleted_def)

lemma forgeStep_ok:
  assumes "forgeStep a step f r = (f', None, r')"
  shows "dom (StepsCompleted f') = dom (StepsCompleted f) \<union> {n. recognized n \<and> n = Name step}
       \<and> Request f' = Request f \<and> GUID f' = GUID f
       \<and> resultUsername f' = resultUsername f \<and> resultPassword f' = resultPassword f
       \<and> resultExtra f' = resultExtra f
       \<and> (\<exists>new. fst r' = fst r @ new \<and> failures new = []
             \<and> length new = (if recognized (Name step) then 1 else 0))"
proof (cases "recognized (Name step)")
  case True
  from forgeStep_recognized[OF True assms]
  obtain c data where tr: "fst r' = fst r @ [(c, None)]" and f': "f' = MarkCompleted (Name step) data f"
    by auto
  have "\<exists>new. fst r' = fst r @ new \<and> failures new = [] \<and> length new = (if recognized (Name step) then 1 else 0)"
    using True tr by (intro exI[of _ "[(c, None)]"]) simp
  moreover have "dom (StepsCompleted f') = dom (StepsCompleted f) \<union> {n. recognized n \<and> n = Name step}"
    using True by (auto simp: f' MarkCompleted_fields)
  ultimately show ?thesis by (simp add: f' MarkCompleted_fields)
next
  case False
  with assms have eq: "f' = f" "r' = r" by (simp_all add: forgeStep_unrecognized)
  have "dom (StepsCompleted f') = dom (StepsCompleted f) \<union> {n. recognized n \<and> n = Name step}"
    using False by (auto simp: eq)
  then show ?thesis using False by (simp add: eq)
qed

lemma forgeSteps_ok:
  assumes "forgeSteps a steps f r = (f', None, r')"
  shows "dom (StepsCompleted f') = dom (StepsCompleted f) \<union> {n. recognized n \<and> n \<in> Name ` set steps}
       \<and> Request f' = Request f \<and> GUID f' = GUID f
       \<and> resultUsername f' = resultUsername f \<and> resultPassword f' = resultPassword f
       \<and> resultExtra f' = resultExtra f
       \<and> (\<exists>new. fst r' = fst r @ new \<and> failures new = []
             \<and> length new = length (filter (\<lambda>s. recognized (Name s)) steps))"
  using assms
proof (induction steps arbitrary: f r)
  case Nil
  then show ?case by simp
next
  case (Cons step rest)
  obtain f1 e1 r1 where s1: "forgeStep a step f r = (f1, e1, r1)"
    by (cases "forgeStep a step f r")
  with Cons.prems have e1: "e1 = None" and tail: "forgeSteps a rest f1 r1 = (f', None, r')"
    by (auto split: option.splits)
  note st = forgeStep_ok[OF s1[unfolded e1]]
  note ih = Cons.IH[OF tail]
  obtain n1 where n1: "fst r1 = fst r @ n1" "failures n1 = []"
      "length n1 = (if recognized (Name step) then 1 else 0)"
    using st by blast
  obtain n2 where n2: "fst r' = fst r1 @ n2" "failures n2 = []"
      "length n2 = length (filter (\<lambda>s. recognized (Name s)) rest)"
    using ih by blast
  have "fst r' = fst r @ (n1 @ n2) \<and> failures (n1 @ n2) = []
        \<and> length (n1 @ n2) = length (filter (\<lambda>s. recognized (Name s)) (step # rest))"
    using n1 n2 by (simp add: failures_append)
  then have tr: "\<exists>new. fst r' = fst r @ new \<and> failures new = []
             \<and> length new = length (filter (\<lambda>s. recognized (Name s)) (step # rest))"
    by blast
  have "dom (StepsCompleted f') = dom (StepsCompleted f) \<union> {n. recognized n \<and> n \<in> Name ` set (step # rest)}"
    using ih st by auto
  with ih st tr show ?case by simp
qed

lemma forgeSteps_fail:
  assumes "forgeSteps a steps f r = (f', Some e, r')"
  shows "\<exists>k<length steps. \<exists>rk. forgeSteps a (take k steps) f r = (f', None, rk)
           \<and> forgeStep a (steps ! k) f' rk = (f', Some e, r')"
  using assms
proof (induction steps arbitrary: f r)
  case Nil
  then show ?case by simp
next
  case (Cons step rest)
  obtain f1 e1 r1 where s1: "forgeStep a step f r = (f1, e1, r1)"
    by (cases "forgeStep a step f r")
  show ?case
  proof (cases e1)
    case None
    with Cons.prems s1 have tail: "forgeSteps a rest f1 r1 = (f', Some e, r')" by simp
    from Cons.IH[OF tail] obtain k rk where k: "k < length rest"
        "forgeSteps a (take k rest) f1 r1 = (f', None, rk)"
        "forgeStep a (rest ! k) f' rk = (f', Some e, r')"
      by blast
    show ?thesis
      using k s1 None by (intro exI[of _ "Suc k"]) simp
  next
    case (Some e')
    with Cons.prems s1 have eq: "f1 = f'" "e' = e" "r1 = r'" by simp_all
    have rec: "recognized (Name step)"
      using s1 Some forgeStep_unrecognized[of step a f r] by auto
    from forgeStep_recognized(2)[OF rec s1] Some have "f1 = f" by simp
    with eq s1 Some show ?thesis by (intro exI[of _ 0]) simp
  qed
qed

lemma forgeSteps_trace:
  assumes "forgeSteps a steps f r = (f', err, r')"
  shows "\<exists>new. fst r' = fst r @ new \<and> failures new = (case err of None \<Rightarrow> [] | Some e \<Rightarrow> [e])"
proof (cases err)
  case None
  with forgeSteps_ok[of a steps f r f' r'] assms show ?thesis by auto
next
  case (Some e)
  from forgeSteps_fail[OF assms[unfolded Some]] obtain k rk where k: "k < length steps"
      "forgeSteps a (take k steps) f r = (f', None, rk)"
      "forgeStep a (steps ! k) f' rk = (f', Some e, r')"
    by blast
  obtain n1 where n1: "fst rk = fst r @ n1" "failures n1 = []"
    using forgeSteps_ok[OF k(2)] by blast
  have rec: "recognized (Name (steps ! k))"
    using k(3) forgeStep_unrecognized[of "steps ! k" a f' rk] by auto
  obtain c where c: "fst r' = fst rk @ [(c, Some e)]"
    using forgeStep_recognized(1)[OF rec k(3)] by blast
  show ?thesis
    using n1 c Some by (intro exI[of _ "n1 @ [(c, Some e)]"]) (simp add: failures_append)
qed

lemma issued_extend: "fst r' = fst r @ new \<Longrightarrow> issued r r' = new"
  by (simp add: issued_def)

lemma path_Base_no_slash:
  assumes "\<exists>c \<in> set p. c \<noteq> CHR ''/''"
  shows "CHR ''/'' \<notin> set (path_Base p)"
proof -
  let ?d = "dropWhile (\<lambda>c. c = CHR ''/'') (rev p)"
  from assms have ne: "?d \<noteq> []" by auto
  then have "hd ?d \<noteq> CHR ''/''" using hd_dropWhile[of "\<lambda>c. c = CHR ''/''" "rev p"] by blast
  with ne have tw: "takeWhile (\<lambda>c. c \<noteq> CHR ''/'') ?d \<noteq> []"
    by (cases ?d) auto
  have "CHR ''/'' \<notin> set (takeWhile (\<lambda>c. c \<noteq> CHR ''/'') ?d)"
    using set_takeWhileD by fastforce
  with tw assms show ?thesis
    by (auto simp: path_Base_def Let_def)
qed

lemma forgeStep_remote:
  assumes "forgeStep a step f r = (f', err, r')"
  shows "Name step = ''s3'' \<longrightarrow>
           (let name = getShortName (ApplicationType (Request f)) @ ''-bucket-'' @ GUID f;
                created = CreateS3Bucket a name (snd r)
            in issued r r' = [(CallCreateS3Bucket name, fst created)]
               \<and> snd r' = snd created \<and> err = fst created)"
    and "Name step = ''policy'' \<longrightarrow>
           (let name = getShortName (ApplicationType (Request f)) @ ''-policy-'' @ GUID f;
                payload = substiteInPayload (Payload step) f (Substitutions step);
                created = CreatePolicy a name payload (snd r)
            in issued r r' = [(CallCreatePolicy name payload, errorOf (fst created))]
               \<and> snd r' = snd created \<and> err = errorOf (fst created))"
    and "Name step = ''role'' \<longrightarrow>
           (let name = getShortName (ApplicationType (Request f)) @ ''-role-'' @ GUID f;
                payload = substiteInPayload (Payload step) f (Substitutions step);
                created = CreateRole a name payload (snd r)
            in issued r r' = [(CallCreateRole name payload, errorOf (fst created))]
               \<and> snd r' = snd created \<and> err = errorOf (fst created))"
    and "Name step = ''bind_role'' \<longrightarrow>
           (let policyArn = readOutput (StepsCompleted f) ''policy'' ''output'';
                roleName = readOutput (StepsCompleted f) ''role'' ''output'';
                bound = BindPolicyToRole a policyArn roleName (snd r)
            in issued r r' = [(CallBindPolicyToRole policyArn roleName, fst bound)]
               \<and> snd r' = snd bound \<and> err = fst bound)"
  using assms
  by (auto simp: forgeStep_def invoke_def invokeArn_def issued_def errorOf_def Let_def
           split: prod.splits option.splits sum.splits)

subsection \<open>The example request, run\<close>

lemma exampleGUID: "generateGUID exampleRnd = ''0102030405060708''"
  by (simp add: generateGUID_def exampleRnd_def hexEncodeToString_def hexDigit_def)

lemma exampleShortName: "getShortName ''/insights/platform/cost-management'' = ''redhat-cost-management''"
  by (simp add: getShortName_def path_Base_def)

lemma example_payloads:
  "stringsReplaceAll ''arn:{{BUCKET}}'' ''{{BUCKET}}'' ''redhat-cost-management-bucket-0102030405060708''
     = ''arn:redhat-cost-management-bucket-0102030405060708''"
  "stringsReplaceAll ''trust {{ACCOUNT}}'' ''{{ACCOUNT}}'' ''1234'' = ''trust 1234''"
  by (simp_all add: stringsReplaceAll_def)

lemma example_all_succeed:
  "ForgeApplication (scriptedClient (\<lambda>c. False)) exampleRequest exampleRnd ([], 0) =
     (forgedLedger, None,
      [(CallCreateS3Bucket ''redhat-cost-management-bucket-0102030405060708'', None),
       (CallCreatePolicy ''redhat-cost-management-policy-0102030405060708''
          ''arn:redhat-cost-management-bucket-0102030405060708'', None),
       (CallCreateRole ''redhat-cost-management-role-0102030405060708'' ''trust 1234'', None),
       (CallBindPolicyToRole ''arn:aws:iam::policy/redhat-cost-management-policy-0102030405060708''
          ''redhat-cost-management-role-0102030405060708'', None)], 4)"
  by (simp add: ForgeApplication_def exampleRequest_def freshLedger_def exampleGUID exampleShortName
        forgeStep_def scriptedClient_def invoke_def invokeArn_def errorOf_def MarkCompleted_def
        CreatePayload_def readOutput_def readExtra_def example_payloads forgedLedger_def Let_def)


lemmas run_defs = forgeStep_def scriptedClient_def invoke_def invokeArn_def errorOf_def
  MarkCompleted_def CreatePayload_def readOutput_def readExtra_def Let_def

section \<open>The claims about ForgeApplication and the templater\<close>

text \<open>
  C1, as amended. Let the first \<open>k\<close> steps of a request run without error, and let the
  remote call of step \<open>k\<close> fail with error \<open>e\<close>. Then \<^verbatim>\<open>ForgeApplication\<close> returns \<open>e\<close> together
  with the ledger as it stood before step \<open>k\<close> and with the remote side as the failed call
  left it, so no later step is interpreted; the keys of \<^verbatim>\<open>StepsCompleted\<close> are exactly the
  recognized names among the steps strictly before \<open>k\<close>; step \<open>k\<close> and every later step
  have no entry under their name unless a step of that name strictly before \<open>k\<close>
  completed; and the result fields stay unset.
\<close>

theorem ForgeApplication_stops_at_failure:
  assumes "k < length (SuperKeySteps request)"
      and "forgeSteps a (take k (SuperKeySteps request)) (freshLedger request rnd) r = (fk, None, rk)"
      and "forgeStep a (SuperKeySteps request ! k) fk rk = (fk', Some e, rk')"
  shows "ForgeApplication a request rnd r = (fk, Some e, rk')
       \<and> (\<exists>c. fst rk' = fst rk @ [(c, Some e)])
       \<and> dom (StepsCompleted fk) = {n. recognized n \<and> n \<in> Name ` set (take k (SuperKeySteps request))}
       \<and> (\<forall>j. k \<le> j \<and> j < length (SuperKeySteps request)
              \<and> Name (SuperKeySteps request ! j) \<notin> Name ` set (take k (SuperKeySteps request))
            \<longrightarrow> StepsCompleted fk (Name (SuperKeySteps request ! j)) = None)
       \<and> resultUsername fk = None \<and> resultPassword fk = None \<and> resultExtra fk = None"
proof -
  let ?steps = "SuperKeySteps request"
  have rec: "recognized (Name (?steps ! k))"
    using assms(3) forgeStep_unrecognized[of "?steps ! k" a fk rk] by auto
  have same: "fk' = fk"
    using forgeStep_recognized(2)[OF rec assms(3)] by simp
  have last: "\<exists>c. fst rk' = fst rk @ [(c, Some e)]"
    using forgeStep_recognized(1)[OF rec assms(3)] .
  have split: "?steps = take k ?steps @ (?steps ! k) # drop (Suc k) ?steps"
    using assms(1) by (simp add: id_take_nth_drop)
  have "forgeSteps a ?steps (freshLedger request rnd) r
          = forgeSteps a (take k ?steps @ (?steps ! k) # drop (Suc k) ?steps) (freshLedger request rnd) r"
    using split by simp
  also have "\<dots> = (fk, Some e, rk')"
    unfolding forgeSteps_append using assms(2,3) same by simp
  finally have run: "ForgeApplication a request rnd r = (fk, Some e, rk')"
    by (simp add: ForgeApplication_def)
  note ok = forgeSteps_ok[OF assms(2)]
  have dom: "dom (StepsCompleted fk) = {n. recognized n \<and> n \<in> Name ` set (take k ?steps)}"
    using ok by (simp add: freshLedger_def)
  have later: "\<forall>j. k \<le> j \<and> j < length ?steps \<and> Name (?steps ! j) \<notin> Name ` set (take k ?steps)
            \<longrightarrow> StepsCompleted fk (Name (?steps ! j)) = None"
    using dom by (auto simp: domIff)
  have res: "resultUsername fk = None \<and> resultPassword fk = None \<and> resultExtra fk = None"
    using ok by (simp add: freshLedger_def)
  from run last dom later res show ?thesis by blast
qed

theorem ForgeApplication_stops_at_failure_witness:
  "3 < length (SuperKeySteps exampleRequest)
   \<and> forgeSteps (scriptedClient failsCreateRole) (take 3 (SuperKeySteps exampleRequest))
        (freshLedger exampleRequest exampleRnd) ([], 0) =
       (ledgerAfterPolicy, None,
        [(CallCreateS3Bucket ''redhat-cost-management-bucket-0102030405060708'', None),
         (CallCreatePolicy ''redhat-cost-management-policy-0102030405060708''
            ''arn:redhat-cost-management-bucket-0102030405060708'', None)], 2)
   \<and> ForgeApplication (scriptedClient failsCreateRole) exampleRequest exampleRnd ([], 0) =
       (ledgerAfterPolicy, Some scriptedError,
        [(CallCreateS3Bucket ''redhat-cost-management-bucket-0102030405060708'', None),
         (CallCreatePolicy ''redhat-cost-management-policy-0102030405060708''
            ''arn:redhat-cost-management-bucket-0102030405060708'', None),
         (CallCreateRole ''redhat-cost-management-role-0102030405060708'' ''trust 1234'', Some scriptedError)], 3)
   \<and> StepsCompleted ledgerAfterPolicy ''s3'' \<noteq> None \<and> StepsCompleted ledgerAfterPolicy ''policy'' \<noteq> None
   \<and> StepsCompleted ledgerAfterPolicy ''role'' = None \<and> StepsCompleted ledgerAfterPolicy ''bind_role'' = None"
proof -
  have h1: "3 < length (SuperKeySteps exampleRequest)"
    by (simp add: exampleRequest_def)
  have h2: "forgeSteps (scriptedClient failsCreateRole) (take 3 (SuperKeySteps exampleRequest))
        (freshLedger exampleRequest exampleRnd) ([], 0) =
       (ledgerAfterPolicy, None,
        [(CallCreateS3Bucket ''redhat-cost-management-bucket-0102030405060708'', None),
         (CallCreatePolicy ''redhat-cost-management-policy-0102030405060708''
            ''arn:redhat-cost-management-bucket-0102030405060708'', None)], 2)"
    by (simp add: exampleRequest_def freshLedger_def exampleGUID exampleShortName run_defs
          failsCreateRole_def example_payloads ledgerAfterPolicy_def)
  have h3: "forgeStep (scriptedClient failsCreateRole) (SuperKeySteps exampleRequest ! 3) ledgerAfterPolicy
        ([(CallCreateS3Bucket ''redhat-cost-management-bucket-0102030405060708'', None),
         (CallCreatePolicy ''redhat-cost-management-policy-0102030405060708''
            ''arn:redhat-cost-management-bucket-0102030405060708'', None)], 2) =
       (ledgerAfterPolicy, Some scriptedError,
        [(CallCreateS3Bucket ''redhat-cost-management-bucket-0102030405060708'', None),
         (CallCreatePolicy ''redhat-cost-management-policy-0102030405060708''
            ''arn:redhat-cost-management-bucket-0102030405060708'', None),
         (CallCreateRole ''redhat-cost-management-role-0102030405060708'' ''trust 1234'', Some scriptedError)], 3)"
    by (simp add: exampleRequest_def exampleShortName run_defs
          failsCreateRole_def example_payloads ledgerAfterPolicy_def)
  show ?thesis
    using ForgeApplication_stops_at_failure[OF h1 h2 h3] h1 h2
    by (simp add: ledgerAfterPolicy_def)
qed

text \<open>
  C1 without the exception for a repeated name fails: in a request of two \<^verbatim>\<open>s3\<close> steps
  whose second bucket creation fails, the first step has succeeded, the second is the
  step that fails, and the returned ledger holds an entry under the second step's
  name, the one the first step recorded.
\<close>

theorem duplicate_step_counterexample:
  "1 < length (SuperKeySteps duplicateRequest)
   \<and> forgeSteps (recordingClient failsAfterFirst) (take 1 (SuperKeySteps duplicateRequest))
        (freshLedger duplicateRequest exampleRnd) ([], []) =
       (MarkCompleted ''s3'' [''output'' \<mapsto> ''redhat-cost-management-bucket-0102030405060708'']
          (freshLedger duplicateRequest exampleRnd), None,
        [(CallCreateS3Bucket ''redhat-cost-management-bucket-0102030405060708'', None)],
        [CallCreateS3Bucket ''redhat-cost-management-bucket-0102030405060708''])
   \<and> ForgeApplication (recordingClient failsAfterFirst) duplicateRequest exampleRnd ([], []) =
       (MarkCompleted ''s3'' [''output'' \<mapsto> ''redhat-cost-management-bucket-0102030405060708'']
          (freshLedger duplicateRequest exampleRnd), Some scriptedError,
        [(CallCreateS3Bucket ''redhat-cost-management-bucket-0102030405060708'', None),
         (CallCreateS3Bucket ''redhat-cost-management-bucket-0102030405060708'', Some scriptedError)],
        [CallCreateS3Bucket ''redhat-cost-management-bucket-0102030405060708'',
         CallCreateS3Bucket ''redhat-cost-management-bucket-0102030405060708''])
   \<and> forgeStep (recordingClient failsAfterFirst) (SuperKeySteps duplicateRequest ! 1)
        (MarkCompleted ''s3'' [''output'' \<mapsto> ''redhat-cost-management-bucket-0102030405060708'']
          (freshLedger duplicateRequest exampleRnd))
        ([(CallCreateS3Bucket ''redhat-cost-management-bucket-0102030405060708'', None)],
         [CallCreateS3Bucket ''redhat-cost-management-bucket-0102030405060708'']) =
       (MarkCompleted ''s3'' [''output'' \<mapsto> ''redhat-cost-management-bucket-0102030405060708'']
          (freshLedger duplicateRequest exampleRnd), Some scriptedError,
        [(CallCreateS3Bucket ''redhat-cost-management-bucket-0102030405060708'', None),
         (CallCreateS3Bucket ''redhat-cost-management-bucket-0102030405060708'', Some scriptedError)],
        [CallCreateS3Bucket ''redhat-cost-management-bucket-0102030405060708'',
         CallCreateS3Bucket ''redhat-cost-management-bucket-0102030405060708''])
   \<and> Name (SuperKeySteps duplicateRequest ! 1) = ''s3''
   \<and> StepsCompleted (fst (ForgeApplication (recordingClient failsAfterFirst) duplicateRequest exampleRnd ([], [])))
         (Name (SuperKeySteps duplicateRequest ! 1))
       = Some [''output'' \<mapsto> ''redhat-cost-management-bucket-0102030405060708'']"
  by (simp add: ForgeApplication_def duplicateRequest_def exampleRequest_def freshLedger_def
        exampleGUID exampleShortName forgeStep_def recordingClient_def invoke_def invokeArn_def errorOf_def
          MarkCompleted_def CreatePayload_def readOutput_def readExtra_def Let_def failsAfterFirst_def)

text \<open>
  C4. If no remote call made during \<^verbatim>\<open>ForgeApplication\<close> fails, the returned error is nil and
  the keys of \<^verbatim>\<open>StepsCompleted\<close> are exactly the recognized step names (\<^verbatim>\<open>s3\<close>, \<^verbatim>\<open>policy\<close>,
  \<^verbatim>\<open>role\<close>, \<^verbatim>\<open>bind_role\<close>) that occur in the request, one entry for each name; one call is
  issued for each recognized step; and a step with any other name changes neither the
  ledger nor the remote side and yields no error.
\<close>

theorem ForgeApplication_all_succeed:
  assumes "ForgeApplication a request rnd r = (f, err, r')"
      and "failures (issued r r') = []"
  shows "err = None
       \<and> dom (StepsCompleted f) = {n. recognized n \<and> n \<in> Name ` set (SuperKeySteps request)}
       \<and> length (issued r r') = length (filter (\<lambda>s. recognized (Name s)) (SuperKeySteps request))
       \<and> (\<forall>step g q. \<not> recognized (Name step) \<longrightarrow> forgeStep a step g q = (g, None, q))"
proof -
  obtain f0 e0 r0 where loop: "forgeSteps a (SuperKeySteps request) (freshLedger request rnd) r = (f0, e0, r0)"
    by (cases "forgeSteps a (SuperKeySteps request) (freshLedger request rnd) r")
  have r0: "r' = r0" and e0: "err = e0"
    using assms(1) loop by (auto simp: ForgeApplication_def Let_def split: option.splits)
  obtain new where new: "fst r0 = fst r @ new" "failures new = (case e0 of None \<Rightarrow> [] | Some e \<Rightarrow> [e])"
    using forgeSteps_trace[OF loop] by blast
  have "issued r r' = new" using new(1) r0 by (simp add: issued_extend)
  with assms(2) new(2) have none: "e0 = None" by (cases e0) simp_all
  note ok = forgeSteps_ok[OF loop[unfolded none]]
  have f: "f = CreatePayload (Some (readOutput (StepsCompleted f0) ''role'' ''arn'')) None
                 (Some (path_Base (ApplicationType (Request f0)))) f0"
    using assms(1) loop none by (simp add: ForgeApplication_def Let_def)
  have dom: "dom (StepsCompleted f) = {n. recognized n \<and> n \<in> Name ` set (SuperKeySteps request)}"
    using ok by (simp add: f CreatePayload_def freshLedger_def)
  obtain n2 where n2: "fst r0 = fst r @ n2"
      "length n2 = length (filter (\<lambda>s. recognized (Name s)) (SuperKeySteps request))"
    using ok by blast
  have len: "length (issued r r') = length (filter (\<lambda>s. recognized (Name s)) (SuperKeySteps request))"
    using n2 r0 by (simp add: issued_extend)
  show ?thesis
    using e0 none dom len forgeStep_unrecognized by blast
qed

theorem ForgeApplication_all_succeed_witness:
  "ForgeApplication (scriptedClient (\<lambda>c. False)) exampleRequest exampleRnd ([], 0) =
     (forgedLedger, None,
      [(CallCreateS3Bucket ''redhat-cost-management-bucket-0102030405060708'', None),
       (CallCreatePolicy ''redhat-cost-management-policy-0102030405060708''
          ''arn:redhat-cost-management-bucket-0102030405060708'', None),
       (CallCreateRole ''redhat-cost-management-role-0102030405060708'' ''trust 1234'', None),
       (CallBindPolicyToRole ''arn:aws:iam::policy/redhat-cost-management-policy-0102030405060708''
          ''redhat-cost-management-role-0102030405060708'', None)], 4)
   \<and> dom (StepsCompleted forgedLedger) = {''s3'', ''policy'', ''role'', ''bind_role''}
   \<and> length (SuperKeySteps exampleRequest) = 5
   \<and> StepsCompleted forgedLedger ''sqs'' = None
   \<and> \<not> recognized (Name (SuperKeySteps exampleRequest ! 2))
   \<and> forgeStep (scriptedClient (\<lambda>c. False)) (SuperKeySteps exampleRequest ! 2) ledgerAfterPolicy ([], 0)
        = (ledgerAfterPolicy, None, [], 0)"
proof -
  have unknown: "\<not> recognized (Name (SuperKeySteps exampleRequest ! 2))"
    by (simp add: exampleRequest_def recognized_def)
  note run = example_all_succeed
  have ok: "failures (issued ([], 0::nat)
      ([(CallCreateS3Bucket ''redhat-cost-management-bucket-0102030405060708'', None),
       (CallCreatePolicy ''redhat-cost-management-policy-0102030405060708''
          ''arn:redhat-cost-management-bucket-0102030405060708'', None),
       (CallCreateRole ''redhat-cost-management-role-0102030405060708'' ''trust 1234'', None),
       (CallBindPolicyToRole ''arn:aws:iam::policy/redhat-cost-management-policy-0102030405060708''
          ''redhat-cost-management-role-0102030405060708'', None)], 4::nat)) = []"
    by (simp add: issued_def)
  have names: "{n. recognized n \<and> n \<in> Name ` set (SuperKeySteps exampleRequest)}
                 = {''s3'', ''policy'', ''role'', ''bind_role''}"
    by (auto simp: recognized_def exampleRequest_def)
  show ?thesis
    using ForgeApplication_all_succeed[OF run ok] run unknown
    by (simp add: names) (simp add: forgedLedger_def exampleRequest_def)
qed

text \<open>
  C6. If no remote call made during \<^verbatim>\<open>ForgeApplication\<close> fails, the returned ledger's
  username is the \<^verbatim>\<open>arn\<close> output recorded for the \<^verbatim>\<open>role\<close> step, and the password (and
  extra) stay unset. The fields are those \<open>CreatePayload\<close> sets, which is modelled from
  the specification.
\<close>

theorem ForgeApplication_username:
  assumes "ForgeApplication a request rnd r = (f, err, r')"
      and "failures (issued r r') = []"
  shows "err = None
       \<and> resultUsername f = Some (readOutput (StepsCompleted f) ''role'' ''arn'')
       \<and> resultPassword f = None \<and> resultExtra f = None"
proof -
  obtain f0 e0 r0 where loop: "forgeSteps a (SuperKeySteps request) (freshLedger request rnd) r = (f0, e0, r0)"
    by (cases "forgeSteps a (SuperKeySteps request) (freshLedger request rnd) r")
  have r0: "r' = r0" and e0: "err = e0"
    using assms(1) loop by (auto simp: ForgeApplication_def Let_def split: option.splits)
  obtain new where new: "fst r0 = fst r @ new" "failures new = (case e0 of None \<Rightarrow> [] | Some e \<Rightarrow> [e])"
    using forgeSteps_trace[OF loop] by blast
  have "issued r r' = new" using new(1) r0 by (simp add: issued_extend)
  with assms(2) new(2) have none: "e0 = None" by (cases e0) simp_all
  note ok = forgeSteps_ok[OF loop[unfolded none]]
  have f: "f = CreatePayload (Some (readOutput (StepsCompleted f0) ''role'' ''arn'')) None
                 (Some (path_Base (ApplicationType (Request f0)))) f0"
    using assms(1) loop none by (simp add: ForgeApplication_def Let_def)
  show ?thesis
    using ok e0 none by (simp add: f CreatePayload_def freshLedger_def)
qed

theorem ForgeApplication_username_witness:
  "ForgeApplication (scriptedClient (\<lambda>c. False)) exampleRequest exampleRnd ([], 0) =
     (forgedLedger, None,
      [(CallCreateS3Bucket ''redhat-cost-management-bucket-0102030405060708'', None),
       (CallCreatePolicy ''redhat-cost-management-policy-0102030405060708''
          ''arn:redhat-cost-management-bucket-0102030405060708'', None),
       (CallCreateRole ''redhat-cost-management-role-0102030405060708'' ''trust 1234'', None),
       (CallBindPolicyToRole ''arn:aws:iam::policy/redhat-cost-management-policy-0102030405060708''
          ''redhat-cost-management-role-0102030405060708'', None)], 4)
   \<and> resultUsername forgedLedger = Some ''arn:aws:iam::role/redhat-cost-management-role-0102030405060708''
   \<and> readOutput (StepsCompleted forgedLedger) ''role'' ''arn''
        = ''arn:aws:iam::role/redhat-cost-management-role-0102030405060708''
   \<and> resultPassword forgedLedger = None"
proof -
  note run = example_all_succeed
  have ok: "failures (issued ([], 0::nat)
      ([(CallCreateS3Bucket ''redhat-cost-management-bucket-0102030405060708'', None),
       (CallCreatePolicy ''redhat-cost-management-policy-0102030405060708''
          ''arn:redhat-cost-management-bucket-0102030405060708'', None),
       (CallCreateRole ''redhat-cost-management-role-0102030405060708'' ''trust 1234'', None),
       (CallBindPolicyToRole ''arn:aws:iam::policy/redhat-cost-management-policy-0102030405060708''
          ''redhat-cost-management-role-0102030405060708'', None)], 4::nat)) = []"
    by (simp add: issued_def)
  show ?thesis
    using ForgeApplication_username[OF run ok] run
    by (simp add: forgedLedger_def readOutput_def)
qed

text \<open>
  C7, as amended. When step \<open>k\<close> of a request is reached, the client operation it runs on
  the remote side, and the error it takes from it, are: for \<^verbatim>\<open>s3\<close>, the bucket creation
  with the name \<^verbatim>\<open><shortName>-bucket-<guid>\<close> (the label is \<^verbatim>\<open>bucket\<close>, not the step's name);
  for \<^verbatim>\<open>policy\<close> and \<^verbatim>\<open>role\<close>, the creation with the name \<^verbatim>\<open><shortName>-policy-<guid>\<close> and
  \<^verbatim>\<open><shortName>-role-<guid>\<close> and the templated payload; for \<^verbatim>\<open>bind_role\<close>, the bind of the
  recorded policy ARN and role name, with no name derived. The short name is \<^verbatim>\<open>redhat-\<close>
  followed by the base name of the application type, which holds no slash whenever the
  application type has a character other than a slash.
\<close>

theorem forgeStep_resource_names:
  assumes "k < length (SuperKeySteps request)"
      and "forgeSteps a (take k (SuperKeySteps request)) (freshLedger request rnd) r = (fk, None, rk)"
      and "forgeStep a (SuperKeySteps request ! k) fk rk = (fk', err, rk')"
  shows "(Name (SuperKeySteps request ! k) = ''s3'' \<longrightarrow>
            (let name = getShortName (ApplicationType request) @ ''-bucket-'' @ generateGUID rnd;
                 created = CreateS3Bucket a name (snd rk)
             in issued rk rk' = [(CallCreateS3Bucket name, fst created)]
                \<and> snd rk' = snd created \<and> err = fst created))
       \<and> (Name (SuperKeySteps request ! k) = ''policy'' \<longrightarrow>
            (let name = getShortName (ApplicationType request) @ ''-policy-'' @ generateGUID rnd;
                 payload = substiteInPayload (Payload (SuperKeySteps request ! k)) fk
                             (Substitutions (SuperKeySteps request ! k));
                 created = CreatePolicy a name payload (snd rk)
             in issued rk rk' = [(CallCreatePolicy name payload, errorOf (fst created))]
                \<and> snd rk' = snd created \<and> err = errorOf (fst created)))
       \<and> (Name (SuperKeySteps request ! k) = ''role'' \<longrightarrow>
            (let name = getShortName (ApplicationType request) @ ''-role-'' @ generateGUID rnd;
                 payload = substiteInPayload (Payload (SuperKeySteps request ! k)) fk
                             (Substitutions (SuperKeySteps request ! k));
                 created = CreateRole a name payload (snd rk)
             in issued rk rk' = [(CallCreateRole name payload, errorOf (fst created))]
                \<and> snd rk' = snd created \<and> err = errorOf (fst created)))
       \<and> (Name (SuperKeySteps request ! k) = ''bind_role'' \<longrightarrow>
            (let policyArn = readOutput (StepsCompleted fk) ''policy'' ''output'';
                 roleName = readOutput (StepsCompleted fk) ''role'' ''output'';
                 bound = BindPolicyToRole a policyArn roleName (snd rk)
             in issued rk rk' = [(CallBindPolicyToRole policyArn roleName, fst bound)]
                \<and> snd rk' = snd bound \<and> err = fst bound))
       \<and> getShortName (ApplicationType request) = ''redhat-'' @ path_Base (ApplicationType request)
       \<and> ((\<exists>c \<in> set (ApplicationType request). c \<noteq> CHR ''/'')
            \<longrightarrow> CHR ''/'' \<notin> set (path_Base (ApplicationType request)))"
proof -
  have led: "Request fk = request" "GUID fk = generateGUID rnd"
    using forgeSteps_ok[OF assms(2)] by (simp_all add: freshLedger_def)
  note rem = forgeStep_remote[OF assms(3), unfolded led]
  have short: "getShortName (ApplicationType request) = ''redhat-'' @ path_Base (ApplicationType request)"
    by (simp add: getShortName_def)
  have slash: "(\<exists>c \<in> set (ApplicationType request). c \<noteq> CHR ''/'')
            \<longrightarrow> CHR ''/'' \<notin> set (path_Base (ApplicationType request))"
    using path_Base_no_slash[of "ApplicationType request"] by blast
  from rem short slash show ?thesis by blast
qed

theorem forgeStep_resource_names_witness:
  "forgeStep (recordingClient (\<lambda>h c. False)) (SuperKeySteps exampleRequest ! 0)
      (freshLedger exampleRequest exampleRnd) ([], []) =
        (ledgerAfterBucket, None, take 1 exampleCalls, map fst (take 1 exampleCalls))
   \<and> forgeStep (recordingClient (\<lambda>h c. False)) (SuperKeySteps exampleRequest ! 1)
      ledgerAfterBucket (take 1 exampleCalls, map fst (take 1 exampleCalls)) =
        (ledgerAfterPolicy, None, take 2 exampleCalls, map fst (take 2 exampleCalls))
   \<and> forgeStep (recordingClient (\<lambda>h c. False)) (SuperKeySteps exampleRequest ! 3)
      ledgerAfterPolicy (take 2 exampleCalls, map fst (take 2 exampleCalls)) =
        (ledgerAfterRole, None, take 3 exampleCalls, map fst (take 3 exampleCalls))
   \<and> forgeStep (recordingClient (\<lambda>h c. False)) (SuperKeySteps exampleRequest ! 4)
      ledgerAfterRole (take 3 exampleCalls, map fst (take 3 exampleCalls)) =
        (MarkCompleted ''bind_role'' Map.empty ledgerAfterRole, None, exampleCalls, map fst exampleCalls)
   \<and> map (Name \<circ> (!) (SuperKeySteps exampleRequest)) [0, 1, 3, 4] = [''s3'', ''policy'', ''role'', ''bind_role'']
   \<and> map fst exampleCalls =
       [CallCreateS3Bucket (getShortName (ApplicationType exampleRequest) @ ''-bucket-'' @ generateGUID exampleRnd),
        CallCreatePolicy (getShortName (ApplicationType exampleRequest) @ ''-policy-'' @ generateGUID exampleRnd)
          ''arn:redhat-cost-management-bucket-0102030405060708'',
        CallCreateRole (getShortName (ApplicationType exampleRequest) @ ''-role-'' @ generateGUID exampleRnd)
          ''trust 1234'',
        CallBindPolicyToRole (readOutput (StepsCompleted ledgerAfterRole) ''policy'' ''output'')
          (readOutput (StepsCompleted ledgerAfterRole) ''role'' ''output'')]
   \<and> snd (CreateS3Bucket (recordingClient (\<lambda>h c. False))
         (getShortName (ApplicationType exampleRequest) @ ''-bucket-'' @ generateGUID exampleRnd) [])
       = [CallCreateS3Bucket ''redhat-cost-management-bucket-0102030405060708'']
   \<and> getShortName (ApplicationType exampleRequest) = ''redhat-cost-management''
   \<and> CHR ''/'' \<notin> set (path_Base (ApplicationType exampleRequest))"
proof -
  let ?c = "recordingClient (\<lambda>h c. False)"
  let ?steps = "SuperKeySteps exampleRequest"
  let ?fresh = "freshLedger exampleRequest exampleRnd"
  note example_defs = exampleRequest_def freshLedger_def exampleGUID exampleShortName
    example_payloads exampleCalls_def ledgerAfterBucket_def ledgerAfterPolicy_def ledgerAfterRole_def
  have len: "0 < length ?steps" "1 < length ?steps" "3 < length ?steps" "4 < length ?steps"
    by (simp_all add: exampleRequest_def)
  have p0: "forgeSteps ?c (take 0 ?steps) ?fresh ([], []) = (?fresh, None, [], [])"
    by simp
  have p1: "forgeSteps ?c (take 1 ?steps) ?fresh ([], [])
              = (ledgerAfterBucket, None, take 1 exampleCalls, map fst (take 1 exampleCalls))"
    by (simp add: example_defs forgeStep_def recordingClient_def invoke_def invokeArn_def errorOf_def
          MarkCompleted_def CreatePayload_def readOutput_def readExtra_def Let_def)
  have p3: "forgeSteps ?c (take 3 ?steps) ?fresh ([], [])
              = (ledgerAfterPolicy, None, take 2 exampleCalls, map fst (take 2 exampleCalls))"
    by (simp add: example_defs forgeStep_def recordingClient_def invoke_def invokeArn_def errorOf_def
          MarkCompleted_def CreatePayload_def readOutput_def readExtra_def Let_def)
  have p4: "forgeSteps ?c (take 4 ?steps) ?fresh ([], [])
              = (ledgerAfterRole, None, take 3 exampleCalls, map fst (take 3 exampleCalls))"
    by (simp add: example_defs forgeStep_def recordingClient_def invoke_def invokeArn_def errorOf_def
          MarkCompleted_def CreatePayload_def readOutput_def readExtra_def Let_def)
  have s0: "forgeStep ?c (?steps ! 0) ?fresh ([], [])
              = (ledgerAfterBucket, None, take 1 exampleCalls, map fst (take 1 exampleCalls))"
    by (simp add: example_defs forgeStep_def recordingClient_def invoke_def invokeArn_def errorOf_def
          MarkCompleted_def CreatePayload_def readOutput_def readExtra_def Let_def)
  have s1: "forgeStep ?c (?steps ! 1) ledgerAfterBucket (take 1 exampleCalls, map fst (take 1 exampleCalls))
              = (ledgerAfterPolicy, None, take 2 exampleCalls, map fst (take 2 exampleCalls))"
    by (simp add: example_defs forgeStep_def recordingClient_def invoke_def invokeArn_def errorOf_def
          MarkCompleted_def CreatePayload_def readOutput_def readExtra_def Let_def)
  have s3: "forgeStep ?c (?steps ! 3) ledgerAfterPolicy (take 2 exampleCalls, map fst (take 2 exampleCalls))
              = (ledgerAfterRole, None, take 3 exampleCalls, map fst (take 3 exampleCalls))"
    by (simp add: example_defs forgeStep_def recordingClient_def invoke_def invokeArn_def errorOf_def
          MarkCompleted_def CreatePayload_def readOutput_def readExtra_def Let_def)
  have s4: "forgeStep ?c (?steps ! 4) ledgerAfterRole (take 3 exampleCalls, map fst (take 3 exampleCalls))
              = (MarkCompleted ''bind_role'' Map.empty ledgerAfterRole, None, exampleCalls, map fst exampleCalls)"
    by (simp add: example_defs forgeStep_def recordingClient_def invoke_def invokeArn_def errorOf_def
          MarkCompleted_def CreatePayload_def readOutput_def readExtra_def Let_def)
  have names: "map (Name \<circ> (!) ?steps) [0, 1, 3, 4] = [''s3'', ''policy'', ''role'', ''bind_role'']"
    by (simp add: exampleRequest_def)
  have calls: "map fst exampleCalls =
       [CallCreateS3Bucket (getShortName (ApplicationType exampleRequest) @ ''-bucket-'' @ generateGUID exampleRnd),
        CallCreatePolicy (getShortName (ApplicationType exampleRequest) @ ''-policy-'' @ generateGUID exampleRnd)
          ''arn:redhat-cost-management-bucket-0102030405060708'',
        CallCreateRole (getShortName (ApplicationType exampleRequest) @ ''-role-'' @ generateGUID exampleRnd)
          ''trust 1234'',
        CallBindPolicyToRole (readOutput (StepsCompleted ledgerAfterRole) ''policy'' ''output'')
          (readOutput (StepsCompleted ledgerAfterRole) ''role'' ''output'')]"
    by (simp add: exampleCalls_def exampleGUID exampleRequest_def exampleShortName
          ledgerAfterRole_def readOutput_def)
  have nm0: "Name (?steps ! 0) = ''s3''" by (simp add: exampleRequest_def)
  have slash: "\<exists>c \<in> set (ApplicationType exampleRequest). c \<noteq> CHR ''/''"
    by (simp add: exampleRequest_def)
  have short: "getShortName (ApplicationType exampleRequest) = ''redhat-cost-management''"
    by (simp add: exampleRequest_def exampleShortName)
  note t0 = forgeStep_resource_names[OF len(1) p0 s0]
  note t1 = forgeStep_resource_names[OF len(2) p1 s1]
  note t3 = forgeStep_resource_names[OF len(3) p3 s3]
  note t4 = forgeStep_resource_names[OF len(4) p4 s4]
  have received: "snd (CreateS3Bucket ?c
         (getShortName (ApplicationType exampleRequest) @ ''-bucket-'' @ generateGUID exampleRnd) [])
       = [CallCreateS3Bucket ''redhat-cost-management-bucket-0102030405060708'']"
    using t0 nm0 by (simp add: Let_def exampleCalls_def)
  have noslash: "CHR ''/'' \<notin> set (path_Base (ApplicationType exampleRequest))"
    using t1 slash by blast
  show ?thesis
    using t3 t4 s0 s1 s3 s4 names calls received short noslash by blast
qed

text \<open>
  C7 with the step's name as the label fails for the \<^verbatim>\<open>s3\<close> step: the client of the
  example request receives a bucket creation under a name with the label \<^verbatim>\<open>bucket\<close>,
  while the step's name gives \<^verbatim>\<open>s3\<close>.
\<close>

theorem bucket_name_counterexample:
  "ForgeApplication (recordingClient (\<lambda>h c. False)) bucketRequest exampleRnd ([], []) =
     (CreatePayload (Some []) None (Some ''cost-management'')
        (MarkCompleted ''s3'' [''output'' \<mapsto> ''redhat-cost-management-bucket-0102030405060708'']
           (freshLedger bucketRequest exampleRnd)),
      None,
      [(CallCreateS3Bucket ''redhat-cost-management-bucket-0102030405060708'', None)],
      [CallCreateS3Bucket ''redhat-cost-management-bucket-0102030405060708''])
   \<and> Name (SuperKeySteps bucketRequest ! 0) = ''s3''
   \<and> getShortName (ApplicationType bucketRequest) @ ''-'' @ Name (SuperKeySteps bucketRequest ! 0)
        @ ''-'' @ generateGUID exampleRnd = ''redhat-cost-management-s3-0102030405060708''
   \<and> ''redhat-cost-management-bucket-0102030405060708'' \<noteq> ''redhat-cost-management-s3-0102030405060708''"
  by (simp add: ForgeApplication_def bucketRequest_def exampleRequest_def freshLedger_def
        exampleGUID exampleShortName forgeStep_def recordingClient_def invoke_def invokeArn_def errorOf_def
          MarkCompleted_def CreatePayload_def readOutput_def readExtra_def Let_def path_Base_def)

text \<open>
  C10. Reading an output of a step that is absent from \<^verbatim>\<open>StepsCompleted\<close> gives the empty
  string (the reading function is total: there is no failing branch). So a \<^verbatim>\<open>bind_role\<close>
  step on a ledger without a \<^verbatim>\<open>policy\<close> or without a \<^verbatim>\<open>role\<close> entry still runs the client's
  bind operation, with the empty string for the missing policy ARN or role name, and
  takes its error from it; in particular when \<^verbatim>\<open>ForgeApplication\<close> reaches a \<^verbatim>\<open>bind_role\<close> step
  that no \<^verbatim>\<open>policy\<close> and no \<^verbatim>\<open>role\<close> step precedes, it binds the empty policy ARN to the
  empty role name. A substitution from the \<^verbatim>\<open>s3\<close> step's output without that step replaces
  the token by the empty string.
\<close>

theorem absent_outputs_read_empty:
  assumes "forgeStep a step f r = (f', err, r')" and "Name step = ''bind_role''"
  shows "(StepsCompleted f name = None \<longrightarrow> readOutput (StepsCompleted f) name key = [])
   \<and> (StepsCompleted f ''policy'' = None \<and> StepsCompleted f ''role'' = None
        \<longrightarrow> (let bound = BindPolicyToRole a [] [] (snd r)
             in issued r r' = [(CallBindPolicyToRole [] [], fst bound)]
                \<and> snd r' = snd bound \<and> err = fst bound))
   \<and> (StepsCompleted f ''policy'' = None
        \<longrightarrow> (let roleName = readOutput (StepsCompleted f) ''role'' ''output'';
                 bound = BindPolicyToRole a [] roleName (snd r)
             in issued r r' = [(CallBindPolicyToRole [] roleName, fst bound)]
                \<and> snd r' = snd bound \<and> err = fst bound))
   \<and> (StepsCompleted f ''role'' = None
        \<longrightarrow> (let policyArn = readOutput (StepsCompleted f) ''policy'' ''output'';
                 bound = BindPolicyToRole a policyArn [] (snd r)
             in issued r r' = [(CallBindPolicyToRole policyArn [], fst bound)]
                \<and> snd r' = snd bound \<and> err = fst bound))
   \<and> (k < length (SuperKeySteps request)
        \<and> forgeSteps a (take k (SuperKeySteps request)) (freshLedger request rnd) r0 = (f, None, r)
        \<and> step = SuperKeySteps request ! k
        \<and> ''policy'' \<notin> Name ` set (take k (SuperKeySteps request))
        \<and> ''role'' \<notin> Name ` set (take k (SuperKeySteps request))
        \<longrightarrow> (let bound = BindPolicyToRole a [] [] (snd r)
             in issued r r' = [(CallBindPolicyToRole [] [], fst bound)]
                \<and> snd r' = snd bound \<and> err = fst bound))
   \<and> (StepsCompleted f ''s3'' = None
        \<longrightarrow> substiteInPayload payload f [(token, ''s3'')] = stringsReplaceAll payload token [])"
proof -
  have absent: "\<And>n k. StepsCompleted f n = None \<Longrightarrow> readOutput (StepsCompleted f) n k = []"
    by (simp add: readOutput_def)
  have bind: "let policyArn = readOutput (StepsCompleted f) ''policy'' ''output'';
                roleName = readOutput (StepsCompleted f) ''role'' ''output'';
                bound = BindPolicyToRole a policyArn roleName (snd r)
            in issued r r' = [(CallBindPolicyToRole policyArn roleName, fst bound)]
               \<and> snd r' = snd bound \<and> err = fst bound"
    using forgeStep_remote(4)[OF assms(1)] assms(2) by blast
  have reached: "StepsCompleted f ''policy'' = None \<and> StepsCompleted f ''role'' = None"
    if run: "forgeSteps a (take k (SuperKeySteps request)) (freshLedger request rnd) r0 = (f, None, r)"
      and no: "''policy'' \<notin> Name ` set (take k (SuperKeySteps request))"
              "''role'' \<notin> Name ` set (take k (SuperKeySteps request))"
  proof -
    have "dom (StepsCompleted f) = {n. recognized n \<and> n \<in> Name ` set (take k (SuperKeySteps request))}"
      using forgeSteps_ok[OF run] by (simp add: freshLedger_def)
    with no have "''policy'' \<notin> dom (StepsCompleted f)" "''role'' \<notin> dom (StepsCompleted f)"
      by simp_all
    then show ?thesis by (simp add: domIff)
  qed
  have both: "StepsCompleted f ''policy'' = None \<and> StepsCompleted f ''role'' = None
        \<longrightarrow> (let bound = BindPolicyToRole a [] [] (snd r)
             in issued r r' = [(CallBindPolicyToRole [] [], fst bound)]
                \<and> snd r' = snd bound \<and> err = fst bound)"
    using bind absent by (simp add: Let_def)
  have pol: "StepsCompleted f ''policy'' = None
        \<longrightarrow> (let roleName = readOutput (StepsCompleted f) ''role'' ''output'';
                 bound = BindPolicyToRole a [] roleName (snd r)
             in issued r r' = [(CallBindPolicyToRole [] roleName, fst bound)]
                \<and> snd r' = snd bound \<and> err = fst bound)"
    using bind absent by (simp add: Let_def)
  have rol: "StepsCompleted f ''role'' = None
        \<longrightarrow> (let policyArn = readOutput (StepsCompleted f) ''policy'' ''output'';
                 bound = BindPolicyToRole a policyArn [] (snd r)
             in issued r r' = [(CallBindPolicyToRole policyArn [], fst bound)]
                \<and> snd r' = snd bound \<and> err = fst bound)"
    using bind absent by (simp add: Let_def)
  have in_run: "k < length (SuperKeySteps request)
        \<and> forgeSteps a (take k (SuperKeySteps request)) (freshLedger request rnd) r0 = (f, None, r)
        \<and> step = SuperKeySteps request ! k
        \<and> ''policy'' \<notin> Name ` set (take k (SuperKeySteps request))
        \<and> ''role'' \<notin> Name ` set (take k (SuperKeySteps request))
        \<longrightarrow> (let bound = BindPolicyToRole a [] [] (snd r)
             in issued r r' = [(CallBindPolicyToRole [] [], fst bound)]
                \<and> snd r' = snd bound \<and> err = fst bound)"
    using reached both by blast
  have subst: "StepsCompleted f ''s3'' = None
        \<longrightarrow> substiteInPayload payload f [(token, ''s3'')] = stringsReplaceAll payload token []"
    using absent by simp
  have rd: "StepsCompleted f name = None \<longrightarrow> readOutput (StepsCompleted f) name key = []"
    using absent by simp
  from rd both pol rol in_run subst show ?thesis by blast
qed

theorem absent_outputs_read_empty_witness:
  "StepsCompleted (freshLedger bindRequest exampleRnd) ''policy'' = None
   \<and> StepsCompleted (freshLedger bindRequest exampleRnd) ''role'' = None
   \<and> StepsCompleted (freshLedger bindRequest exampleRnd) ''s3'' = None
   \<and> Name (SuperKeySteps bindRequest ! 0) = ''bind_role''
   \<and> forgeStep (recordingClient (\<lambda>h c. False)) (SuperKeySteps bindRequest ! 0)
        (freshLedger bindRequest exampleRnd) ([], []) =
       (MarkCompleted ''bind_role'' Map.empty (freshLedger bindRequest exampleRnd), None,
        [(CallBindPolicyToRole [] [], None)], [CallBindPolicyToRole [] []])
   \<and> ForgeApplication (recordingClient (\<lambda>h c. False)) bindRequest exampleRnd ([], []) =
       (CreatePayload (Some []) None (Some ''cost-management'')
          (MarkCompleted ''bind_role'' Map.empty (freshLedger bindRequest exampleRnd)),
        None, [(CallBindPolicyToRole [] [], None)], [CallBindPolicyToRole [] []])
   \<and> snd (BindPolicyToRole (recordingClient (\<lambda>h c. False)) [] [] []) = [CallBindPolicyToRole [] []]
   \<and> substiteInPayload ''arn:{{BUCKET}}'' (freshLedger bindRequest exampleRnd) [(''{{BUCKET}}'', ''s3'')] = ''arn:''"
proof -
  let ?c = "recordingClient (\<lambda>h c. False)"
  let ?fresh = "freshLedger bindRequest exampleRnd"
  have absent: "StepsCompleted ?fresh ''policy'' = None" "StepsCompleted ?fresh ''role'' = None"
    "StepsCompleted ?fresh ''s3'' = None"
    by (simp_all add: freshLedger_def)
  have nm: "Name (SuperKeySteps bindRequest ! 0) = ''bind_role''"
    by (simp add: bindRequest_def)
  have step: "forgeStep ?c (SuperKeySteps bindRequest ! 0) ?fresh ([], []) =
       (MarkCompleted ''bind_role'' Map.empty ?fresh, None,
        [(CallBindPolicyToRole [] [], None)], [CallBindPolicyToRole [] []])"
    by (simp add: bindRequest_def freshLedger_def forgeStep_def recordingClient_def invoke_def invokeArn_def errorOf_def
          MarkCompleted_def CreatePayload_def readOutput_def readExtra_def Let_def)
  have run: "ForgeApplication ?c bindRequest exampleRnd ([], []) =
       (CreatePayload (Some []) None (Some ''cost-management'')
          (MarkCompleted ''bind_role'' Map.empty ?fresh),
        None, [(CallBindPolicyToRole [] [], None)], [CallBindPolicyToRole [] []])"
    by (simp add: ForgeApplication_def bindRequest_def exampleRequest_def freshLedger_def
          forgeStep_def recordingClient_def invoke_def invokeArn_def errorOf_def
          MarkCompleted_def CreatePayload_def readOutput_def readExtra_def Let_def path_Base_def)
  have rep: "stringsReplaceAll ''arn:{{BUCKET}}'' ''{{BUCKET}}'' [] = ''arn:''"
    by (simp add: stringsReplaceAll_def)
  note th = absent_outputs_read_empty[OF step nm, where name = "''policy''" and key = "''output''"
      and payload = "''arn:{{BUCKET}}''" and token = "''{{BUCKET}}''" and k = 0
      and request = bindRequest and rnd = exampleRnd and ?r0.0 = "([], [])"]
  have received: "snd (BindPolicyToRole ?c [] [] []) = [CallBindPolicyToRole [] []]"
    using th absent by (simp add: Let_def)
  have subst: "substiteInPayload ''arn:{{BUCKET}}'' ?fresh [(''{{BUCKET}}'', ''s3'')] = ''arn:''"
    using th absent rep by simp
  from absent nm step run received subst show ?thesis by blast
qed

text \<open>
  C5, as amended. The templater takes the entries one after another. An entry whose
  source is \<^verbatim>\<open>get_account\<close> replaces the token in the payload as it stands by the request's
  \<^verbatim>\<open>extra["account"]\<close>; an entry whose source is \<^verbatim>\<open>s3\<close>, the only prior-step source, by the
  \<^verbatim>\<open>output\<close> recorded for the \<^verbatim>\<open>s3\<close> step; an entry with any other source leaves the payload
  as it is. Replacing a non-empty token cuts the payload at its occurrences, found from
  the left, into pieces that hold no occurrence, and glues them with the value. With
  the output \<^verbatim>\<open>my-bucket-abc123\<close> recorded for \<^verbatim>\<open>s3\<close>, the payload \<^verbatim>\<open>arn:{{BUCKET}}\<close> becomes
  \<^verbatim>\<open>arn:my-bucket-abc123\<close>.
\<close>

theorem substiteInPayload_entry:
  "substiteInPayload payload f (before @ (token, source) # after) =
     substiteInPayload
       (if source = ''get_account''
        then stringsReplaceAll (substiteInPayload payload f before) token (readExtra (Extra (Request f)) ''account'')
        else if source = ''s3''
        then stringsReplaceAll (substiteInPayload payload f before) token
               (readOutput (StepsCompleted f) ''s3'' ''output'')
        else substiteInPayload payload f before) f after
   \<and> (token \<noteq> [] \<longrightarrow>
         joinWith token (cutAt token s) = s
         \<and> stringsReplaceAll s token v = joinWith v (cutAt token s)
         \<and> (\<forall>piece \<in> set (cutAt token s). \<not> sublist token piece))
   \<and> (StepsCompleted f ''s3'' = Some [''output'' \<mapsto> ''my-bucket-abc123'']
        \<longrightarrow> substiteInPayload ''arn:{{BUCKET}}'' f [(''{{BUCKET}}'', ''s3'')] = ''arn:my-bucket-abc123'')"
proof -
  have entry: "substiteInPayload payload f (before @ (token, source) # after) =
     substiteInPayload
       (if source = ''get_account''
        then stringsReplaceAll (substiteInPayload payload f before) token (readExtra (Extra (Request f)) ''account'')
        else if source = ''s3''
        then stringsReplaceAll (substiteInPayload payload f before) token
               (readOutput (StepsCompleted f) ''s3'' ''output'')
        else substiteInPayload payload f before) f after"
    by (simp add: substiteInPayload_append Let_def)
  have cut: "token \<noteq> [] \<longrightarrow>
         joinWith token (cutAt token s) = s
         \<and> stringsReplaceAll s token v = joinWith v (cutAt token s)
         \<and> (\<forall>piece \<in> set (cutAt token s). \<not> sublist token piece)"
    using joinWith_cutAt[of token s] stringsReplaceAll_cutAt[of token s v]
      cutAt_no_occurrence[of token _ s] by blast
  have ex: "StepsCompleted f ''s3'' = Some [''output'' \<mapsto> ''my-bucket-abc123'']
        \<longrightarrow> substiteInPayload ''arn:{{BUCKET}}'' f [(''{{BUCKET}}'', ''s3'')] = ''arn:my-bucket-abc123''"
    by (simp add: readOutput_def stringsReplaceAll_def)
  from entry cut ex show ?thesis by blast
qed

theorem substiteInPayload_entry_witness:
  "StepsCompleted fullLedger ''s3'' = Some [''output'' \<mapsto> ''my-bucket-abc123'']
   \<and> substiteInPayload ''arn:{{BUCKET}}'' fullLedger [(''{{BUCKET}}'', ''s3'')] = ''arn:my-bucket-abc123''
   \<and> substiteInPayload ''{{A}}:{{BUCKET}}:{{A}}'' fullLedger
        ([(''{{BUCKET}}'', ''s3'')] @ (''{{A}}'', ''get_account'') # []) = ''1234:my-bucket-abc123:1234''
   \<and> cutAt ''{{A}}'' ''{{A}}:x:{{A}}'' = ['''', '':x:'', '''']
   \<and> \<not> sublist ''{{A}}'' '':x:''"
proof -
  have s3: "StepsCompleted fullLedger ''s3'' = Some [''output'' \<mapsto> ''my-bucket-abc123'']"
    by (simp add: fullLedger_def)
  have tok: "''{{A}}'' \<noteq> []" by simp
  have cut: "cutAt ''{{A}}'' ''{{A}}:x:{{A}}'' = ['''', '':x:'', '''']" by simp
  have acc: "readExtra (Extra (Request fullLedger)) ''account'' = ''1234''"
    by (simp add: fullLedger_def exampleRequest_def readExtra_def)
  have out: "readOutput (StepsCompleted fullLedger) ''s3'' ''output'' = ''my-bucket-abc123''"
    by (simp add: fullLedger_def readOutput_def)
  have rep: "stringsReplaceAll ''{{A}}:{{BUCKET}}:{{A}}'' ''{{BUCKET}}'' ''my-bucket-abc123''
               = ''{{A}}:my-bucket-abc123:{{A}}''"
            "stringsReplaceAll ''{{A}}:my-bucket-abc123:{{A}}'' ''{{A}}'' ''1234'' = ''1234:my-bucket-abc123:1234''"
    by (simp_all add: stringsReplaceAll_def)
  show ?thesis
    using substiteInPayload_entry[of "''{{A}}:{{BUCKET}}:{{A}}''" fullLedger "[(''{{BUCKET}}'', ''s3'')]"
            "''{{A}}''" "''get_account''" "[]" "''{{A}}:x:{{A}}''" "''1234''"] s3 tok cut
    by (simp add: acc out rep)
qed

text \<open>
  C5 for every entry and every prior step fails for an entry that names another
  completed step: the token of an entry with the source \<^verbatim>\<open>policy\<close> is not replaced by the
  output recorded for the policy step; the payload stays as it is.
\<close>

theorem substiteInPayload_policy_source_counterexample:
  "readOutput (StepsCompleted fullLedger) ''policy'' ''output'' = ''arn:policy''
   \<and> substiteInPayload ''arn:{{POLICY}}'' fullLedger [(''{{POLICY}}'', ''policy'')] = ''arn:{{POLICY}}''
   \<and> ''arn:{{POLICY}}'' \<noteq> ''arn:arn:policy''"
  by (simp add: fullLedger_def readOutput_def)

end
